theory Spec2Isabelle
  imports Main "HOL-Library.Word" "HOL-Library.Multiset"
begin

section \<open>Go values and the way a command ends\<close>

text \<open>
  A Go string is a sequence of bytes, and so is an Isabelle \<open>string\<close>.  A call either
  returns a value, ends the process (\<open>os.Exit(c)\<close>; \<open>log.Fatal\<close> writes its message
  to standard error and exits with status 1), or panics at run time (an index or a slice
  bound out of range).
\<close>

type_synonym byte = "8 word"

datatype 'a outcome = Return 'a | Exit nat | Panic

text \<open>\<open>s[k:]\<close> on a string or a slice: the bound must not exceed the length.\<close>

definition sliceFrom :: "nat \<Rightarrow> 'a list \<Rightarrow> 'a list outcome" where
  "sliceFrom k s = (if k \<le> length s then Return (drop k s) else Panic)"

text \<open>\<open>xs[0]\<close>.\<close>

definition index0 :: "'a list \<Rightarrow> 'a outcome" where
  "index0 xs = (case xs of [] \<Rightarrow> Panic | x # _ \<Rightarrow> Return x)"

text \<open>\<open>xs[1]\<close>.\<close>

definition index1 :: "'a list \<Rightarrow> 'a outcome" where
  "index1 xs = (case xs of x # y # _ \<Rightarrow> Return y | _ \<Rightarrow> Panic)"

subsection \<open>The parts of the Go library the commands use\<close>

text \<open>\<open>strings.HasPrefix\<close> and \<open>strings.Contains\<close>.\<close>

fun HasPrefix :: "string \<Rightarrow> string \<Rightarrow> bool" where
  "HasPrefix s [] = True"
| "HasPrefix [] (p # ps) = False"
| "HasPrefix (c # s) (p # ps) = (c = p \<and> HasPrefix s ps)"

fun Contains :: "string \<Rightarrow> string \<Rightarrow> bool" where
  "Contains [] substr = (substr = [])"
| "Contains (c # s) substr = (HasPrefix (c # s) substr \<or> Contains s substr)"

text \<open>\<open>strings.Split(s, sep)\<close> for a separator of one byte: never an empty result.\<close>

fun Split :: "string \<Rightarrow> char \<Rightarrow> string list" where
  "Split [] sep = [[]]"
| "Split (c # s) sep =
     (if c = sep then [] # Split s sep
      else (case Split s sep of [] \<Rightarrow> [[c]] | p # ps \<Rightarrow> (c # p) # ps))"

text \<open>\<open>strings.Join(parts, "")\<close>.\<close>

definition Join :: "string list \<Rightarrow> string" where
  "Join parts = concat parts"

text \<open>\<open>fmt.Sprint(i)\<close> for a non-negative integer: its decimal digits.\<close>

definition digit :: "nat \<Rightarrow> char" where
  "digit d = ''0123456789'' ! (d mod 10)"

function Sprint :: "nat \<Rightarrow> string" where
  "Sprint n = (if n < 10 then [digit n] else Sprint (n div 10) @ [digit (n mod 10)])"
  by pat_completeness auto
termination
  by (relation "measure (\<lambda>n. n)") auto

text \<open>\<open>net.JoinHostPort\<close>: a host with a colon or a percent sign is bracketed.\<close>

definition JoinHostPort :: "string \<Rightarrow> string \<Rightarrow> string" where
  "JoinHostPort host port =
     (if CHR '':'' \<in> set host \<or> CHR ''%'' \<in> set host then ''['' @ host @ '']:'' @ port
      else host @ '':'' @ port)"

text \<open>
  \<open>net.IP\<close> is a byte slice of length 4 or 16.  \<open>To4\<close> gives the 4-byte form of an IPv4
  address (also of one written in the 16-byte IPv4-in-IPv6 form) and \<open>nil\<close>, here
  \<open>None\<close>, for every other value.
\<close>

type_synonym IP = "byte list"

definition To4 :: "IP \<Rightarrow> IP option" where
  "To4 ip =
     (if length ip = 4 then Some ip
      else if length ip = 16 \<and> (\<forall>b \<in> set (take 10 ip). b = 0)
                \<and> ip ! 10 = 0xff \<and> ip ! 11 = 0xff then Some (drop 12 ip)
      else None)"

section \<open>The container engine and the host, as the commands see them\<close>

text \<open>
  The engine is an external service.  The records below hold what it answers; a call that
  can fail answers \<open>Inl\<close> with the error text.
\<close>

record Container =
  Names :: "string list"
  State :: string
  ImageID :: string

record ContainerListOptions =
  All :: bool
  Quiet :: bool

record ContainerRemoveOptions =
  RemoveLinks :: bool
  RemoveVolumes :: bool
  Force :: bool

record ImageRemoveOptions =
  ForceImage :: bool
  PruneChildren :: bool

text \<open>
  What \<open>ContainerInspect\<close> returns, as far as \<open>dockerInspect\<close> reads it: the binds
  of the host configuration, the environment and the image of the configuration.  An
  inspection that succeeds carries both configurations.
\<close>

record ContainerJSON =
  HostConfig_Binds :: "string list"
  Config_Env :: "string list"
  Config_Image :: string

text \<open>
  What \<open>ImageInspectWithRaw\<close> returns, as far as \<open>inspectImage\<close> reads it; an
  inspection that succeeds carries the container configuration with its labels.  A Go
  map read at a missing key gives the empty string.
\<close>

record ImageInspect =
  RepoTags :: "string list"
  RepoDigests :: "string list"
  Created :: string
  ContainerConfig_Labels :: "string \<rightharpoonup> string"

definition label :: "(string \<rightharpoonup> string) \<Rightarrow> string \<Rightarrow> string" where
  "label m k = (case m k of None \<Rightarrow> [] | Some v \<Rightarrow> v)"

text \<open>A network address of the host: \<open>Network()\<close> and \<open>String()\<close> of a \<open>net.Addr\<close>.\<close>

record Addr =
  Network :: string
  String :: string

text \<open>An HTTP response: the status, and what reading the whole body gives.\<close>

record Response =
  StatusCode :: nat
  Body :: "string + string"

datatype engineCall =
    ContainerRemove string ContainerRemoveOptions
  | ImageRemove string ImageRemoveOptions

text \<open>
  The environment of one command.  \<open>ContainerNamePrefix\<close> is the package constant of
  the program (declared in a file that is not among the sources at hand, so it is a
  parameter here).  The container list does not change while a command runs.  The log
  stream and the gateway may answer differently at each request, so they are indexed by
  the number of requests made before.  \<open>json_Keys\<close> is what \<open>json.Unmarshal\<close> finds
  under \<open>Keys\<close> (access key, secret key); \<open>regexp_MatchString\<close>, \<open>TrimSpace\<close>,
  \<open>IP_String\<close> and \<open>table_Render\<close> are the library's regular expressions, white
  space trimming, address printing and table printer; \<open>S3Logs\<close> is the log of the
  gateway of a container.  An exec session gives its identifier, then its connection,
  then what reading the connection to its end gives.
\<close>

record env =
  ContainerNamePrefix :: string
  containers :: "Container list"
  ContainerList_error :: "string option"
  ContainerInspect :: "string \<Rightarrow> string + ContainerJSON"
  ImageInspectWithRaw :: "string \<Rightarrow> string + ImageInspect"
  ContainerLogs :: "nat \<Rightarrow> string \<Rightarrow> string + string"
  ContainerExecCreate :: "string \<Rightarrow> string list \<Rightarrow> string + string"
  ContainerExecAttach :: "string \<Rightarrow> string + (string + string)"
  ContainerRemove_error :: "string \<Rightarrow> string option"
  ImageRemove_error :: "string \<Rightarrow> string option"
  InterfaceAddrs :: "string + Addr list"
  ParseCIDR :: "string \<Rightarrow> string + IP"
  IP_String :: "IP \<Rightarrow> string"
  http_Get :: "nat \<Rightarrow> string \<Rightarrow> string + Response"
  DialTimeout :: "string \<Rightarrow> string \<Rightarrow> nat \<Rightarrow> string option"
  json_Keys :: "string \<Rightarrow> (string \<times> string) list"
  TrimSpace :: "string \<Rightarrow> string"
  S3Logs :: "string \<Rightarrow> string"
  regexp_MatchString :: "string \<Rightarrow> string \<Rightarrow> bool"
  table_Render :: "string list list \<Rightarrow> string"

text \<open>
  The state of the process: the package variables of the command (\<open>IamSure\<close>,
  \<open>DeleteAll\<close>, \<open>ImageName\<close>) and what the process has done so far: the text of
  each print to standard output and of each message to standard error, in order; how
  often the help was shown; the seconds slept; the number of log requests; the address
  of each HTTP request, in order; the removal calls made on the engine, in order.
\<close>

record state =
  IamSure :: bool
  DeleteAll :: bool
  ImageName :: string
  stdout :: "string list"
  stderr :: "string list"
  helpShown :: nat
  slept :: nat
  logRequests :: nat
  httpRequests :: "string list"
  engineCalls :: "engineCall list"

definition Println :: "string \<Rightarrow> state \<Rightarrow> state" where
  "Println line s = s\<lparr>stdout := stdout s @ [line]\<rparr>"

definition Sleep :: "nat \<Rightarrow> state \<Rightarrow> state" where
  "Sleep seconds s = s\<lparr>slept := slept s + seconds\<rparr>"

text \<open>\<open>log.Fatal(msg)\<close>: the message goes to standard error, the process exits with 1.\<close>

definition Fatal :: "string \<Rightarrow> state \<Rightarrow> 'a outcome \<times> state" where
  "Fatal msg s = (Exit 1, s\<lparr>stderr := stderr s @ [msg]\<rparr>)"

text \<open>
  \<open>ContainerList\<close> of the engine: with \<open>All\<close> unset it lists only the containers that
  are running (a running container reports the state \<open>running\<close>, \<open>paused\<close> or
  \<open>restarting\<close>); with \<open>All\<close> set it lists every container.  The specification names
  the parameter \<open>includeStopped\<close>.
\<close>

definition shownByDefault :: "Container \<Rightarrow> bool" where
  "shownByDefault c =
     (State c = ''running'' \<or> State c = ''paused'' \<or> State c = ''restarting'')"

definition ContainerList :: "env \<Rightarrow> ContainerListOptions \<Rightarrow> string + Container list" where
  "ContainerList e options =
     (case ContainerList_error e of
        Some err \<Rightarrow> Inl err
      | None \<Rightarrow> Inr (if All options then containers e
                     else filter shownByDefault (containers e)))"

section \<open>Sequencing\<close>

text \<open>
  Statements run one after the other; the first one that exits or panics ends the run.
\<close>

definition lift :: "'a outcome \<Rightarrow> state \<Rightarrow> 'a outcome \<times> state" where
  "lift r s = (r, s)"

definition andThen ::
  "(state \<Rightarrow> 'a outcome \<times> state) \<Rightarrow> ('a \<Rightarrow> state \<Rightarrow> 'b outcome \<times> state)
     \<Rightarrow> state \<Rightarrow> 'b outcome \<times> state" where
  "andThen m f s =
     (case m s of
        (Return x, s1) \<Rightarrow> f x s1
      | (Exit c, s1) \<Rightarrow> (Exit c, s1)
      | (Panic, s1) \<Rightarrow> (Panic, s1))"

definition obind :: "'a outcome \<Rightarrow> ('a \<Rightarrow> 'b outcome) \<Rightarrow> 'b outcome" where
  "obind r f = (case r of Return x \<Rightarrow> f x | Exit c \<Rightarrow> Exit c | Panic \<Rightarrow> Panic)"

section \<open>Identity resolver\<close>

text \<open>\<open>ContainerName := ContainerNamePrefix + args[0]\<close> (purge.go, status).\<close>

definition resolveContainerName :: "env \<Rightarrow> string \<Rightarrow> string" where
  "resolveContainerName e logicalName = ContainerNamePrefix e @ logicalName"

text \<open>
  \<open>ContainerNameToShow := ContainerName[len(ContainerNamePrefix):]\<close>, as
  \<open>purgeNano\<close>, \<open>notExistCheck\<close> and \<open>notRunningCheck\<close> compute it.
\<close>

definition ContainerNameToShow :: "env \<Rightarrow> string \<Rightarrow> string outcome" where
  "ContainerNameToShow e ContainerName =
     sliceFrom (length (ContainerNamePrefix e)) ContainerName"

text \<open>
  The name shown by \<open>showNanoClusters\<close>: the engine's name of the container (it starts
  with a slash) cut by the length of the prefix, then by one more byte.
\<close>

definition listNameToShow :: "env \<Rightarrow> string \<Rightarrow> string outcome" where
  "listNameToShow e name =
     obind (sliceFrom (length (ContainerNamePrefix e)) name) (\<lambda>ContainerNameToShow.
       sliceFrom 1 ContainerNameToShow)"

text \<open>\<open>dockerInspect\<close>.\<close>

definition dockerInspect :: "env \<Rightarrow> string \<Rightarrow> string \<Rightarrow> state \<Rightarrow> string outcome \<times> state" where
  "dockerInspect e ContainerName pattern s =
     (case ContainerInspect e ContainerName of
        Inl err \<Rightarrow> Fatal err s
      | Inr inspect \<Rightarrow>
          if pattern = ''Binds'' then
            (obind (index0 (HostConfig_Binds inspect)) (\<lambda>b. index0 (Split b CHR '':'')), s)
          else if pattern = ''PortBindings'' then
            (obind (index0 (Config_Env inspect)) (\<lambda>v. index1 (Split v CHR ''='')), s)
          else (Return (Config_Image inspect), s))"

text \<open>\<open>inspectImage\<close>.\<close>

definition inspectImage :: "env \<Rightarrow> string \<Rightarrow> string \<Rightarrow> string" where
  "inspectImage e imageID dataType =
     (case ImageInspectWithRaw e imageID of
        Inl err \<Rightarrow> ''image is not present, did you remove it?''
      | Inr i \<Rightarrow>
          if dataType = ''tag'' then
            (if length (RepoTags i) = 0 then Join (RepoDigests i) else Join (RepoTags i))
          else if dataType = ''created'' then Created i
          else if length (label (ContainerConfig_Labels i) ''RELEASE'') = 0 then
            ''unknown image release, are you running an official image?''
          else label (ContainerConfig_Labels i) ''RELEASE'')"

section \<open>State classifier\<close>

text \<open>\<open>containerStatus\<close>.\<close>

definition containerStatus ::
  "env \<Rightarrow> string \<Rightarrow> bool \<Rightarrow> string \<Rightarrow> state \<Rightarrow> bool outcome \<times> state" where
  "containerStatus e ContainerName allList containerState s =
     (case ContainerList e \<lparr>All = allList, Quiet = True\<rparr> of
        Inl err \<Rightarrow> Fatal err s
      | Inr cs \<Rightarrow>
          (Return (list_ex (\<lambda>container.
                     list_ex (\<lambda>name. name = ''/'' @ ContainerName
                                       \<and> State container = containerState)
                       (Names container)) cs), s))"

text \<open>\<open>notExistCheck\<close>: the second listing is made only when the first finds nothing.\<close>

definition notExistCheck :: "env \<Rightarrow> string \<Rightarrow> state \<Rightarrow> unit outcome \<times> state" where
  "notExistCheck e ContainerName =
     andThen (lift (ContainerNameToShow e ContainerName)) (\<lambda>toShow.
     andThen (containerStatus e ContainerName False ''running'') (\<lambda>running.
       if running then lift (Return ())
       else andThen (containerStatus e ContainerName False ''exited'') (\<lambda>exited.
         if exited then lift (Return ())
         else (\<lambda>s. (Exit 0, Println (''Cluster '' @ toShow @ '' does not exist yet.'') s)))))"

text \<open>\<open>notRunningCheck\<close>.\<close>

definition notRunningCheck :: "env \<Rightarrow> string \<Rightarrow> state \<Rightarrow> unit outcome \<times> state" where
  "notRunningCheck e ContainerName =
     andThen (lift (ContainerNameToShow e ContainerName)) (\<lambda>toShow.
     andThen (containerStatus e ContainerName True ''exited'') (\<lambda>status.
       if status then (\<lambda>s. (Exit 0, Println (''Cluster '' @ toShow @ '' is not running.'') s))
       else lift (Return ())))"

section \<open>Purge\<close>

text \<open>The two removal calls; the commands drop the error they return.\<close>

definition ContainerRemove_call ::
  "env \<Rightarrow> string \<Rightarrow> ContainerRemoveOptions \<Rightarrow> state \<Rightarrow> string option outcome \<times> state" where
  "ContainerRemove_call e name options s =
     (Return (ContainerRemove_error e name),
      s\<lparr>engineCalls := engineCalls s @ [ContainerRemove name options]\<rparr>)"

definition ImageRemove_call ::
  "env \<Rightarrow> string \<Rightarrow> ImageRemoveOptions \<Rightarrow> state \<Rightarrow> string option outcome \<times> state" where
  "ImageRemove_call e name options s =
     (Return (ImageRemove_error e name),
      s\<lparr>engineCalls := engineCalls s @ [ImageRemove name options]\<rparr>)"

text \<open>\<open>removeContainer\<close>.\<close>

definition removeContainer :: "env \<Rightarrow> string \<Rightarrow> state \<Rightarrow> unit outcome \<times> state" where
  "removeContainer e ContainerName =
     andThen (\<lambda>s. if DeleteAll s
                  then andThen (dockerInspect e ContainerName ''image'')
                         (\<lambda>image s1. (Return (), s1\<lparr>ImageName := image\<rparr>)) s
                  else (Return (), s)) (\<lambda>_.
     andThen (ContainerRemove_call e ContainerName
                \<lparr>RemoveLinks = False, RemoveVolumes = True, Force = True\<rparr>) (\<lambda>_ s.
       if DeleteAll s
       then andThen (ImageRemove_call e (ImageName s) \<lparr>ForceImage = True, PruneChildren = True\<rparr>)
              (\<lambda>_. lift (Return ()))
              (Println (''Removing container image'' @ ImageName s @ ''...'') s)
       else (Return (), s)))"

text \<open>\<open>purgeNano\<close>.\<close>

definition purgeNano :: "env \<Rightarrow> string list \<Rightarrow> state \<Rightarrow> unit outcome \<times> state" where
  "purgeNano e args =
     andThen (lift (index0 args)) (\<lambda>arg0.
     andThen (lift (ContainerNameToShow e (resolveContainerName e arg0))) (\<lambda>toShow s.
       if \<not> IamSure s then
         (Exit 1,
          (Println ''Purge option is too dangerous please set the right flag. \<newline> \<newline>'' s)
            \<lparr>helpShown := Suc (helpShown s)\<rparr>)
       else
         andThen (notExistCheck e (resolveContainerName e arg0)) (\<lambda>_.
         andThen (\<lambda>s1. (Return (), Println (''Purging cluster '' @ toShow @ ''...'') s1)) (\<lambda>_.
           removeContainer e (resolveContainerName e arg0))) s))"

section \<open>Exec inside the container\<close>

text \<open>\<open>execContainer\<close>: an empty output gives \<open>nil\<close>, the empty slice.\<close>

definition execContainer :: "env \<Rightarrow> string \<Rightarrow> string list \<Rightarrow> state \<Rightarrow> string outcome \<times> state" where
  "execContainer e ContainerName cmd s =
     (case ContainerExecCreate e ContainerName cmd of
        Inl err \<Rightarrow> Fatal err s
      | Inr responseID \<Rightarrow>
          (case ContainerExecAttach e responseID of
             Inl err \<Rightarrow> Fatal err s
           | Inr connection \<Rightarrow>
               (case connection of
                  Inl err \<Rightarrow> Fatal err s
                | Inr output \<Rightarrow>
                    if length output > 0 then (sliceFrom 8 output, s)
                    else (Return [], s))))"

section \<open>Readiness: the internal health of the container\<close>

definition ContainerLogs_call :: "env \<Rightarrow> string \<Rightarrow> state \<Rightarrow> (string + string) \<times> state" where
  "ContainerLogs_call e ContainerName s =
     (ContainerLogs e (logRequests s) ContainerName, s\<lparr>logRequests := Suc (logRequests s)\<rparr>)"

text \<open>\<open>grepForSuccess\<close>.\<close>

definition grepForSuccess :: "env \<Rightarrow> string \<Rightarrow> state \<Rightarrow> bool outcome \<times> state" where
  "grepForSuccess e ContainerName s =
     (case ContainerLogs_call e ContainerName s of
        (Inl err, s1) \<Rightarrow> Fatal err s1
      | (Inr newStr, s1) \<Rightarrow>
          if Contains newStr ''SUCCESS'' then (Return True, s1) else (Return False, s1))"

text \<open>
  The loop of \<open>cephNanoHealth\<close>.  It gives \<open>True\<close> when the function returns from
  inside the loop and \<open>False\<close> when the loop ends because \<open>poll\<close> reached the timeout.
\<close>

function cephNanoHealth_loop ::
  "env \<Rightarrow> string \<Rightarrow> nat \<Rightarrow> nat \<Rightarrow> state \<Rightarrow> bool outcome \<times> state" where
  "cephNanoHealth_loop e ContainerName timeout poll s =
     (if poll < timeout then
        (case grepForSuccess e ContainerName s of
           (Return found, s1) \<Rightarrow>
             if found then (Return True, s1)
             else cephNanoHealth_loop e ContainerName timeout (Suc poll) (Sleep 1 s1)
         | (Exit c, s1) \<Rightarrow> (Exit c, s1)
         | (Panic, s1) \<Rightarrow> (Panic, s1))
      else (Return False, s))"
  by pat_completeness auto
termination
  by (relation "measure (\<lambda>(e, ContainerName, timeout, poll, s). timeout - poll)") auto

text \<open>\<open>cephNanoHealth\<close>.\<close>

definition cephNanoHealth :: "env \<Rightarrow> string \<Rightarrow> state \<Rightarrow> unit outcome \<times> state" where
  "cephNanoHealth e ContainerName =
     andThen (cephNanoHealth_loop e ContainerName 60 0) (\<lambda>returned.
       if returned then lift (Return ())
       else (\<lambda>s.
         case ContainerLogs_call e ContainerName
                (Println (''The container '' @ ContainerName
                   @ '' never reached a clean state. Showing the container logs now:'') s) of
           (Inl err, s1) \<Rightarrow> Fatal err s1
         | (Inr newStr, s1) \<Rightarrow>
             Fatal ''Please open an issue at: https://github.com/ceph/cn with the logs above.''
               (Println newStr s1)))"

section \<open>Network selector\<close>

text \<open>
  \<open>byLastOctetValue.Less\<close>: byte 3 of \<open>To4()\<close> of each address; indexing \<open>nil\<close>
  panics.
\<close>

definition lastOctet :: "IP \<Rightarrow> byte outcome" where
  "lastOctet ip =
     (case To4 ip of
        None \<Rightarrow> Panic
      | Some p \<Rightarrow> if 3 < length p then Return (p ! 3) else Panic)"

definition Less :: "IP \<Rightarrow> IP \<Rightarrow> bool outcome" where
  "Less ni nj = obind (lastOctet ni) (\<lambda>a. obind (lastOctet nj) (\<lambda>b. Return (a < b)))"

text \<open>\<open>sort.Reverse\<close>: the order with the arguments of \<open>Less\<close> exchanged.\<close>

definition Reverse :: "('a \<Rightarrow> 'a \<Rightarrow> bool outcome) \<Rightarrow> 'a \<Rightarrow> 'a \<Rightarrow> bool outcome" where
  "Reverse lt x y = lt y x"

text \<open>
  \<open>sort.Sort\<close> is library code.  It is modelled by insertion sort, which the library
  itself runs on a short slice: each element in turn moves towards the front while
  \<open>Less\<close> holds between it and the element before it.  The library does not promise
  an order among elements that compare as equal, so only properties that do not depend
  on that order are proved of it.
  \<open>insertBack\<close> works on the sorted part in reverse, the last element first.
\<close>

fun insertBack :: "('a \<Rightarrow> 'a \<Rightarrow> bool outcome) \<Rightarrow> 'a \<Rightarrow> 'a list \<Rightarrow> 'a list outcome" where
  "insertBack lt x [] = Return [x]"
| "insertBack lt x (y # rs) =
     obind (lt x y) (\<lambda>before.
       if before then obind (insertBack lt x rs) (\<lambda>rs'. Return (y # rs'))
       else Return (x # y # rs))"

fun insertionSort :: "('a \<Rightarrow> 'a \<Rightarrow> bool outcome) \<Rightarrow> 'a list \<Rightarrow> 'a list \<Rightarrow> 'a list outcome" where
  "insertionSort lt rs [] = Return (rev rs)"
| "insertionSort lt rs (x # xs) =
     obind (insertBack lt x rs) (\<lambda>rs'. insertionSort lt rs' xs)"

definition Sort :: "('a \<Rightarrow> 'a \<Rightarrow> bool outcome) \<Rightarrow> 'a list \<Rightarrow> 'a list outcome" where
  "Sort lt data = insertionSort lt [] data"

text \<open>The loop of \<open>getInterfaceIPv4s\<close> over the addresses of the host.\<close>

fun collectIPv4s :: "env \<Rightarrow> Addr list \<Rightarrow> IP list \<Rightarrow> string + IP list" where
  "collectIPv4s e [] nips = Inr nips"
| "collectIPv4s e (addr # addrs) nips =
     (if Network addr = ''ip+net'' then
        (case ParseCIDR e (String addr) of
           Inl err \<Rightarrow>
             Inl (''Unable to parse address '' @ String addr @ '', error '' @ err)
         | Inr nip \<Rightarrow>
             if To4 nip \<noteq> None then collectIPv4s e addrs (nips @ [nip])
             else collectIPv4s e addrs nips)
      else collectIPv4s e addrs nips)"

text \<open>\<open>getInterfaceIPv4s\<close>: the addresses, or the error it returns.\<close>

definition getInterfaceIPv4s :: "env \<Rightarrow> (string + IP list) outcome" where
  "getInterfaceIPv4s e =
     (case InterfaceAddrs e of
        Inl err \<Rightarrow> Return (Inl (''Unable to determine network interface address. '' @ err))
      | Inr addrs \<Rightarrow>
          (case collectIPv4s e addrs [] of
             Inl err \<Rightarrow> Return (Inl err)
           | Inr nips \<Rightarrow> obind (Sort (Reverse Less) nips) (\<lambda>sorted. Return (Inr sorted))))"

text \<open>\<open>ips, _ := getInterfaceIPv4s()\<close>: with an error, \<open>ips\<close> is \<open>nil\<close>.\<close>

definition dropError :: "string + IP list \<Rightarrow> IP list" where
  "dropError r = (case r of Inl err \<Rightarrow> [] | Inr ips \<Rightarrow> ips)"

section \<open>Readiness: the external health of the gateway\<close>

text \<open>\<open>curlTestURL\<close>.\<close>

definition curlTestURL :: "env \<Rightarrow> string \<Rightarrow> state \<Rightarrow> bool outcome \<times> state" where
  "curlTestURL e url s =
     (case http_Get e (length (httpRequests s)) url of
        Inl err \<Rightarrow> (Return False, s\<lparr>httpRequests := httpRequests s @ [url]\<rparr>)
      | Inr response \<Rightarrow>
          (case Body response of
             Inl err \<Rightarrow> (Return False, s\<lparr>httpRequests := httpRequests s @ [url]\<rparr>)
           | Inr content \<Rightarrow> (Return True, s\<lparr>httpRequests := httpRequests s @ [url]\<rparr>)))"

text \<open>
  Modelled from the spec: \<open>showS3Logs\<close> is not among the sources at hand; the
  specification says of it that it prints the gateway-specific log stream.
\<close>

definition showS3Logs :: "env \<Rightarrow> string \<Rightarrow> state \<Rightarrow> unit outcome \<times> state" where
  "showS3Logs e ContainerName s = (Return (), Println (S3Logs e ContainerName) s)"

text \<open>The loop of \<open>cephNanoS3Health\<close>, with the same convention as the loop above.\<close>

function cephNanoS3Health_loop ::
  "env \<Rightarrow> string \<Rightarrow> nat \<Rightarrow> nat \<Rightarrow> state \<Rightarrow> bool outcome \<times> state" where
  "cephNanoS3Health_loop e url timeout poll s =
     (if poll < timeout then
        (case curlTestURL e url s of
           (Return ok, s1) \<Rightarrow>
             if ok then (Return True, s1)
             else cephNanoS3Health_loop e url timeout (Suc poll) (Sleep 1 s1)
         | (Exit c, s1) \<Rightarrow> (Exit c, s1)
         | (Panic, s1) \<Rightarrow> (Panic, s1))
      else (Return False, s))"
  by pat_completeness auto
termination
  by (relation "measure (\<lambda>(e, url, timeout, poll, s). timeout - poll)") auto

text \<open>\<open>cephNanoS3Health\<close>.\<close>

definition cephNanoS3Health :: "env \<Rightarrow> string \<Rightarrow> string \<Rightarrow> state \<Rightarrow> unit outcome \<times> state" where
  "cephNanoS3Health e ContainerName RgwPort =
     andThen (lift (getInterfaceIPv4s e)) (\<lambda>r.
     andThen (lift (index0 (dropError r))) (\<lambda>ip0.
     andThen (cephNanoS3Health_loop e (''http://'' @ IP_String e ip0 @ '':'' @ RgwPort) 30 0)
       (\<lambda>returned.
         if returned then lift (Return ())
         else
           andThen (\<lambda>s. showS3Logs e ContainerName
                      (Println (''S3 gateway for cluster '' @ ContainerName
                         @ '' is not responding. Showing S3 logs:'') s)) (\<lambda>_.
             Fatal ''Please open an issue at: https://github.com/ceph/cn.''))))"

section \<open>Status\<close>

text \<open>\<open>getAwsKey\<close>: the first pair of keys; the error of \<open>json.Unmarshal\<close> is dropped.\<close>

definition getAwsKey :: "env \<Rightarrow> string \<Rightarrow> state \<Rightarrow> (string \<times> string) outcome \<times> state" where
  "getAwsKey e ContainerName =
     andThen (execContainer e ContainerName [''cat'', ''/nano_user_details'']) (\<lambda>output.
       lift (index0 (json_Keys e output)))"

text \<open>\<open>echoInfo\<close>.\<close>

definition echoInfo :: "env \<Rightarrow> string \<Rightarrow> state \<Rightarrow> unit outcome \<times> state" where
  "echoInfo e ContainerName =
     andThen (dockerInspect e ContainerName ''PortBindings'') (\<lambda>RgwPort.
     andThen (cephNanoHealth e ContainerName) (\<lambda>_.
     andThen (cephNanoS3Health e ContainerName RgwPort) (\<lambda>_.
     andThen (getAwsKey e ContainerName) (\<lambda>keys.
     andThen (execContainer e ContainerName [''ceph'', ''health'']) (\<lambda>c.
     andThen (lift (getInterfaceIPv4s e)) (\<lambda>r.
     andThen (dockerInspect e ContainerName ''Binds'') (\<lambda>dir.
     andThen (lift (index0 (dropError r))) (\<lambda>ip0 s.
       (Return (),
        Println (''\<newline>'' @ TrimSpace e c @ '' is the Ceph status \<newline>''
          @ ''S3 object server address is: http://'' @ IP_String e ip0 @ '':'' @ RgwPort
          @ ''\<newline>''
          @ ''S3 user is: nano \<newline>''
          @ ''S3 access key is: '' @ fst keys @ ''\<newline>''
          @ ''S3 secret key is: '' @ snd keys @ ''\<newline>''
          @ ''Your working directory is: '' @ dir @ ''\<newline>'') s)))))))))"

text \<open>\<open>statusNano\<close>.\<close>

definition statusNano :: "env \<Rightarrow> string list \<Rightarrow> state \<Rightarrow> unit outcome \<times> state" where
  "statusNano e args =
     andThen (lift (index0 args)) (\<lambda>arg0.
     andThen (notExistCheck e (resolveContainerName e arg0)) (\<lambda>_.
     andThen (notRunningCheck e (resolveContainerName e arg0)) (\<lambda>_.
       echoInfo e (resolveContainerName e arg0))))"

section \<open>Port allocator\<close>

text \<open>\<open>checkPortInUsed\<close>: true when the connection attempt fails.\<close>

definition checkPortInUsed :: "env \<Rightarrow> string \<Rightarrow> bool" where
  "checkPortInUsed e portNum =
     (DialTimeout e ''tcp'' (JoinHostPort ''0.0.0.0'' portNum) 1 \<noteq> None)"

text \<open>The loop of \<open>generateRGWPortToUse\<close>.\<close>

function generateRGWPortToUse_loop :: "env \<Rightarrow> nat \<Rightarrow> nat \<Rightarrow> string" where
  "generateRGWPortToUse_loop e maxPort i =
     (if i \<le> maxPort then
        (if checkPortInUsed e (Sprint i) then Sprint i
         else generateRGWPortToUse_loop e maxPort (Suc i))
      else ''notfound'')"
  by pat_completeness auto
termination
  by (relation "measure (\<lambda>(e, maxPort, i). Suc maxPort - i)") auto

text \<open>\<open>generateRGWPortToUse\<close>.\<close>

definition generateRGWPortToUse :: "env \<Rightarrow> string" where
  "generateRGWPortToUse e = generateRGWPortToUse_loop e 8100 8000"

section \<open>List\<close>

text \<open>The row of \<open>showNanoClusters\<close> for one name of one container.\<close>

definition clusterRow :: "env \<Rightarrow> Container \<Rightarrow> string \<Rightarrow> string list outcome" where
  "clusterRow e container name =
     obind (sliceFrom 7 (ImageID container)) (\<lambda>image.
     obind (listNameToShow e name) (\<lambda>toShow.
       Return [toShow, State container, inspectImage e image ''tag'',
               inspectImage e image ''release'', inspectImage e image ''created'']))"

fun rowsOfNames :: "env \<Rightarrow> Container \<Rightarrow> string list \<Rightarrow> string list list outcome" where
  "rowsOfNames e container [] = Return []"
| "rowsOfNames e container (name # names) =
     (if regexp_MatchString e (ContainerNamePrefix e) name then
        obind (clusterRow e container name) (\<lambda>row.
        obind (rowsOfNames e container names) (\<lambda>rows. Return (row # rows)))
      else rowsOfNames e container names)"

fun rowsOfContainers :: "env \<Rightarrow> Container list \<Rightarrow> string list list outcome" where
  "rowsOfContainers e [] = Return []"
| "rowsOfContainers e (container # cs) =
     obind (rowsOfNames e container (Names container)) (\<lambda>rows.
     obind (rowsOfContainers e cs) (\<lambda>more. Return (rows @ more)))"

text \<open>\<open>showNanoClusters\<close>.\<close>

definition showNanoClusters :: "env \<Rightarrow> state \<Rightarrow> unit outcome \<times> state" where
  "showNanoClusters e s =
     (case ContainerList e \<lparr>All = True, Quiet = True\<rparr> of
        Inl err \<Rightarrow> Fatal err s
      | Inr cs \<Rightarrow>
          andThen (lift (rowsOfContainers e cs)) (\<lambda>rows s1.
            (Return (),
             Println (table_Render e
               ([''NAME'', ''STATUS'', ''IMAGE'', ''IMAGE RELEASE'', ''IMAGE CREATION TIME'']
                # rows)) s1)) s)"

section \<open>Notions of the statements\<close>

text \<open>
  The order of the result of the network selector: the last octet of \<open>x\<close> is at least
  that of \<open>y\<close>.
\<close>

definition descending :: "IP \<Rightarrow> IP \<Rightarrow> bool" where
  "descending x y = (\<exists>a b. lastOctet x = Return a \<and> lastOctet y = Return b \<and> b \<le> a)"

text \<open>
  A request to the gateway is delivered when the response arrives and its body can be
  read to its end.  \<open>gatewayURL\<close> is the address \<open>cephNanoS3Health\<close> polls.
\<close>

definition delivered :: "env \<Rightarrow> nat \<Rightarrow> string \<Rightarrow> bool" where
  "delivered e k url = (\<exists>response content. http_Get e k url = Inr response \<and> Body response = Inr content)"

definition gatewayURL :: "env \<Rightarrow> IP \<Rightarrow> string \<Rightarrow> string" where
  "gatewayURL e ip RgwPort = ''http://'' @ IP_String e ip @ '':'' @ RgwPort"

section \<open>Hosts to run the commands on\<close>

text \<open>
  A host with no container, no image and no network address, on which every request
  fails; the examples below change the fields they need.  The process starts with the
  flags unset and nothing done.
\<close>

definition env0 :: env where
  "env0 =
     \<lparr>ContainerNamePrefix = ''ceph-nano-'',
      containers = [],
      ContainerList_error = None,
      ContainerInspect = (\<lambda>name. Inl ''No such container''),
      ImageInspectWithRaw = (\<lambda>image. Inl ''No such image''),
      ContainerLogs = (\<lambda>k name. Inl ''No such container''),
      ContainerExecCreate = (\<lambda>name cmd. Inl ''No such container''),
      ContainerExecAttach = (\<lambda>session. Inl ''No such exec instance''),
      ContainerRemove_error = (\<lambda>name. Some ''No such container''),
      ImageRemove_error = (\<lambda>name. Some ''No such image''),
      InterfaceAddrs = Inr [],
      ParseCIDR = (\<lambda>a. Inl ''invalid CIDR address''),
      IP_String = (\<lambda>ip. ''192.168.0.200''),
      http_Get = (\<lambda>k url. Inl ''connection refused''),
      DialTimeout = (\<lambda>network address seconds. Some ''connection refused''),
      json_Keys = (\<lambda>doc. []),
      TrimSpace = (\<lambda>text. text),
      S3Logs = (\<lambda>name. []),
      regexp_MatchString = (\<lambda>pattern text. False),
      table_Render = (\<lambda>rows. [])\<rparr>"

definition state0 :: state where
  "state0 =
     \<lparr>IamSure = False, DeleteAll = False, ImageName = ''ceph/daemon'',
      stdout = [], stderr = [], helpShown = 0, slept = 0, logRequests = 0,
      httpRequests = [], engineCalls = []\<rparr>"

text \<open>
  A host with the loopback address, written in the 16-byte form, and two addresses of
  local networks.
\<close>

definition hostAddrs :: "Addr list" where
  "hostAddrs =
     [\<lparr>Network = ''ip+net'', String = ''127.0.0.1/8''\<rparr>,
      \<lparr>Network = ''ip+net'', String = ''192.168.0.200/24''\<rparr>,
      \<lparr>Network = ''ip+net'', String = ''10.0.0.50/8''\<rparr>]"

definition hostParseCIDR :: "string \<Rightarrow> string + IP" where
  "hostParseCIDR a =
     (if a = ''127.0.0.1/8'' then Inr [0, 0, 0, 0, 0, 0, 0, 0, 0, 0, 0xff, 0xff, 127, 0, 0, 1]
      else if a = ''192.168.0.200/24'' then Inr [192, 168, 0, 200]
      else if a = ''10.0.0.50/8'' then Inr [10, 0, 0, 50]
      else if a = ''::1/128'' then Inr [0, 0, 0, 0, 0, 0, 0, 0, 0, 0, 0, 0, 0, 0, 0, 1]
      else Inl ''invalid CIDR address'')"

text \<open>
  A host with a container whose log has the marker, and a gateway that answers as
  \<open>answers\<close> says: never, or from the fourth request on.
\<close>

definition gatewayHost :: "(nat \<Rightarrow> string \<Rightarrow> string + Response) \<Rightarrow> env" where
  "gatewayHost answers =
     env0\<lparr>ContainerInspect := (\<lambda>name. Inr
             \<lparr>HostConfig_Binds = [''/usr/share/ceph-nano:/tmp''],
              Config_Env = [''RGW_CIVETWEB_PORT=8000''],
              Config_Image = ''ceph/daemon''\<rparr>),
          ContainerLogs := (\<lambda>k name. Inr ''demo: SUCCESS''),
          InterfaceAddrs := Inr hostAddrs,
          ParseCIDR := hostParseCIDR,
          http_Get := answers\<rparr>"

definition refused :: "nat \<Rightarrow> string \<Rightarrow> string + Response" where
  "refused k url = Inl ''connection refused''"

definition afterThree :: "nat \<Rightarrow> string \<Rightarrow> string + Response" where
  "afterThree k url =
     (if k < 3 then Inl ''connection refused''
      else Inr \<lparr>StatusCode = 200, Body = Inr ''<ListAllMyBucketsResult/>''\<rparr>)"

text \<open>A host with the running cluster \<open>a\<close>, made from the image \<open>img:v1\<close>.\<close>

definition purgeHost :: env where
  "purgeHost =
     env0\<lparr>containers := [\<lparr>Names = [''/ceph-nano-a''], State = ''running'',
                            ImageID = ''sha256:0123abcd''\<rparr>],
          ContainerInspect := (\<lambda>name. Inr
             \<lparr>HostConfig_Binds = [''/usr/share/ceph-nano:/tmp''],
              Config_Env = [''RGW_CIVETWEB_PORT=8000''],
              Config_Image = ''img:v1''\<rparr>)\<rparr>"

section \<open>Properties\<close>

text \<open>The equations of the loops are unfolded by hand, one turn at a time.\<close>

declare generateRGWPortToUse_loop.simps [simp del]
declare Sprint.simps [simp del]
declare cephNanoHealth_loop.simps [simp del]
declare cephNanoS3Health_loop.simps [simp del]

subsection \<open>Exec output\<close>

text \<open>
  C10.  When the exec session is created, attached and read without error,
  \<open>execContainer\<close> returns \<open>nil\<close> for an empty output and the output without its
  first 8 bytes for an output of at least 8 bytes; for every output of 1 to 7 bytes the
  length guard lets the slice \<open>output[8:]\<close> run out of bounds, and the call panics.
\<close>

theorem execContainer_strips_or_panics:
  assumes "ContainerExecCreate e ContainerName cmd = Inr responseID"
    and "ContainerExecAttach e responseID = Inr (Inr output)"
  shows "execContainer e ContainerName cmd s =
           (if output = [] then (Return [], s)
            else if length output < 8 then (Panic, s)
            else (Return (drop 8 output), s))"
  using assms by (simp add: execContainer_def sliceFrom_def)

theorem execContainer_strips_or_panics_witness:
  "execContainer
     (env0\<lparr>ContainerExecCreate := (\<lambda>name cmd. Inr ''session''),
            ContainerExecAttach := (\<lambda>session. Inr (Inr ''HEALTH''))\<rparr>)
     ''ceph-nano-a'' [''ceph'', ''health''] state0 = (Panic, state0)
   \<and> execContainer
     (env0\<lparr>ContainerExecCreate := (\<lambda>name cmd. Inr ''session''),
            ContainerExecAttach := (\<lambda>session. Inr (Inr ''12345678HEALTH_OK''))\<rparr>)
     ''ceph-nano-a'' [''ceph'', ''health''] state0 = (Return ''HEALTH_OK'', state0)
   \<and> execContainer
     (env0\<lparr>ContainerExecCreate := (\<lambda>name cmd. Inr ''session''),
            ContainerExecAttach := (\<lambda>session. Inr (Inr []))\<rparr>)
     ''ceph-nano-a'' [''ceph'', ''health''] state0 = (Return [], state0)"
proof -
  let ?create = "\<lambda>name cmd. Inr ''session'' :: string + string"
  let ?short = "env0\<lparr>ContainerExecCreate := ?create,
                      ContainerExecAttach := (\<lambda>session. Inr (Inr ''HEALTH''))\<rparr>"
  let ?long = "env0\<lparr>ContainerExecCreate := ?create,
                     ContainerExecAttach := (\<lambda>session. Inr (Inr ''12345678HEALTH_OK''))\<rparr>"
  let ?none = "env0\<lparr>ContainerExecCreate := ?create,
                     ContainerExecAttach := (\<lambda>session. Inr (Inr []))\<rparr>"
  have short: "execContainer ?short ''ceph-nano-a'' [''ceph'', ''health''] state0
                 = (Panic, state0)"
    using execContainer_strips_or_panics
            [of ?short "''ceph-nano-a''" "[''ceph'', ''health'']" "''session''" "''HEALTH''" state0]
    by simp
  have long: "execContainer ?long ''ceph-nano-a'' [''ceph'', ''health''] state0
                = (Return ''HEALTH_OK'', state0)"
    using execContainer_strips_or_panics
            [of ?long "''ceph-nano-a''" "[''ceph'', ''health'']" "''session''"
                "''12345678HEALTH_OK''" state0]
    by simp
  have none: "execContainer ?none ''ceph-nano-a'' [''ceph'', ''health''] state0
                = (Return [], state0)"
    using execContainer_strips_or_panics
            [of ?none "''ceph-nano-a''" "[''ceph'', ''health'']" "''session''" "[]" state0]
    by simp
  from short long none show ?thesis by simp
qed

subsection \<open>Names\<close>

text \<open>
  C8.  Prepending the prefix and then cutting the display name gives the logical name
  back, for both ways the commands cut it: \<open>purgeNano\<close> and the two checks cut the
  prefix from the container name; \<open>showNanoClusters\<close> cuts the prefix and one more
  byte from the name the engine reports, which is the container name after a slash.
\<close>

theorem display_name_inverts_resolveContainerName:
  "ContainerNameToShow e (resolveContainerName e logicalName) = Return logicalName
   \<and> listNameToShow e (''/'' @ resolveContainerName e logicalName) = Return logicalName"
  by (simp add: ContainerNameToShow_def listNameToShow_def resolveContainerName_def
        sliceFrom_def obind_def)

subsection \<open>Image metadata\<close>

text \<open>
  C6.  \<open>inspectImage\<close> returns a string in every case.  When the inspection of the
  image fails, that string is the not-present sentinel, whatever field is asked for.  For
  an image without tags whose digests are \<open>["d1"]\<close> the tag is \<open>d1\<close>.  For an image
  without a \<open>RELEASE\<close> label the release is the unknown-release sentinel.
\<close>

theorem inspectImage_sentinels:
  "(ImageInspectWithRaw e imageID = Inl err \<longrightarrow>
      inspectImage e imageID dataType = ''image is not present, did you remove it?'')
   \<and> (ImageInspectWithRaw e imageID = Inr i \<and> RepoTags i = [] \<and> RepoDigests i = [''d1''] \<longrightarrow>
      inspectImage e imageID ''tag'' = ''d1'')
   \<and> (ImageInspectWithRaw e imageID = Inr i \<and> ContainerConfig_Labels i ''RELEASE'' = None \<longrightarrow>
      inspectImage e imageID ''release''
        = ''unknown image release, are you running an official image?'')"
  by (simp add: inspectImage_def Join_def label_def)

theorem inspectImage_sentinels_witness:
  "inspectImage env0 ''0123abcd'' ''created'' = ''image is not present, did you remove it?''
   \<and> inspectImage
         (env0\<lparr>ImageInspectWithRaw := (\<lambda>image. Inr
            \<lparr>RepoTags = [], RepoDigests = [''d1''], Created = ''2018-03-01'',
             ContainerConfig_Labels = Map.empty\<rparr>)\<rparr>) ''0123abcd'' ''tag'' = ''d1''
   \<and> inspectImage
         (env0\<lparr>ImageInspectWithRaw := (\<lambda>image. Inr
            \<lparr>RepoTags = [], RepoDigests = [''d1''], Created = ''2018-03-01'',
             ContainerConfig_Labels = Map.empty\<rparr>)\<rparr>) ''0123abcd'' ''release''
       = ''unknown image release, are you running an official image?''"
proof -
  let ?i = "\<lparr>RepoTags = [], RepoDigests = [''d1''], Created = ''2018-03-01'',
            ContainerConfig_Labels = Map.empty\<rparr> :: ImageInspect"
  let ?e = "env0\<lparr>ImageInspectWithRaw := (\<lambda>image. Inr ?i)\<rparr>"
  have gone: "ImageInspectWithRaw env0 ''0123abcd'' = Inl ''No such image''"
    by (simp add: env0_def)
  have there: "ImageInspectWithRaw ?e ''0123abcd'' = Inr ?i"
    by simp
  show ?thesis
    using inspectImage_sentinels [of env0 "''0123abcd''" "''No such image''" "''created''" ?i]
      inspectImage_sentinels [of ?e "''0123abcd''" "''No such image''" "''tag''" ?i]
      gone there
    by simp
qed

subsection \<open>State classifier\<close>

text \<open>
  With \<open>All\<close> unset the engine lists no exited container, so the second listing of
  \<open>notExistCheck\<close> never finds one.
\<close>

lemma containerStatus_exited_hidden:
  "containerStatus e ContainerName False ''exited'' s \<noteq> (Return True, s')"
  by (auto simp: containerStatus_def ContainerList_def shownByDefault_def Fatal_def list_ex_iff
      split: option.splits)

text \<open>
  \<open>notExistCheck\<close> returns exactly when the engine has a running container of that
  name (when the listing works and the name is at least as long as the prefix).
\<close>

lemma notExistCheck_returns_iff_running:
  assumes "ContainerList_error e = None"
    and "length (ContainerNamePrefix e) \<le> length ContainerName"
  shows "(\<exists>s'. notExistCheck e ContainerName s = (Return (), s'))
         \<longleftrightarrow> (\<exists>c \<in> set (containers e).
                ''/'' @ ContainerName \<in> set (Names c) \<and> State c = ''running'')"
  using assms
  by (auto simp: notExistCheck_def andThen_def lift_def ContainerNameToShow_def sliceFrom_def
        containerStatus_def ContainerList_def shownByDefault_def list_ex_iff)

text \<open>
  C1.  On a host whose only container is \<open>/ceph-nano-a\<close> in state \<open>exited\<close>,
  \<open>notExistCheck\<close> prints that the cluster does not exist and ends the command with
  status 0, although the listing that \<open>notRunningCheck\<close> makes (with \<open>All\<close> set)
  finds the container in state \<open>exited\<close>.
\<close>

theorem notExistCheck_exited_container_exits:
  "notExistCheck
     (env0\<lparr>containers := [\<lparr>Names = [''/ceph-nano-a''], State = ''exited'',
                            ImageID = ''sha256:0123abcd''\<rparr>]\<rparr>)
     ''ceph-nano-a'' state0
   = (Exit 0, Println ''Cluster a does not exist yet.'' state0)
   \<and> containerStatus
     (env0\<lparr>containers := [\<lparr>Names = [''/ceph-nano-a''], State = ''exited'',
                            ImageID = ''sha256:0123abcd''\<rparr>]\<rparr>)
     ''ceph-nano-a'' True ''exited'' state0 = (Return True, state0)"
  by (simp add: notExistCheck_def andThen_def lift_def ContainerNameToShow_def sliceFrom_def
        containerStatus_def ContainerList_def shownByDefault_def env0_def)

subsection \<open>Port allocator\<close>

lemma checkPortInUsed_dial:
  "checkPortInUsed e portNum = (DialTimeout e ''tcp'' (''0.0.0.0:'' @ portNum) 1 \<noteq> None)"
  by (simp add: checkPortInUsed_def JoinHostPort_def)

lemma loop_notfound:
  "(\<And>p. i \<le> p \<Longrightarrow> p \<le> maxPort \<Longrightarrow> \<not> checkPortInUsed e (Sprint p))
     \<Longrightarrow> generateRGWPortToUse_loop e maxPort i = ''notfound''"
proof (induction e maxPort i rule: generateRGWPortToUse_loop.induct)
  case (1 e maxPort i)
  show ?case
  proof (cases "i \<le> maxPort")
    case True
    then have here: "\<not> checkPortInUsed e (Sprint i)" using "1.prems" by simp
    have "generateRGWPortToUse_loop e maxPort (Suc i) = ''notfound''"
      using True here "1.prems" by (intro "1.IH") auto
    then show ?thesis
      using True here by (subst generateRGWPortToUse_loop.simps) simp
  next
    case False
    then show ?thesis by (subst generateRGWPortToUse_loop.simps) simp
  qed
qed

lemma loop_first_free:
  "i \<le> k \<Longrightarrow> k \<le> maxPort \<Longrightarrow> checkPortInUsed e (Sprint k)
     \<Longrightarrow> (\<And>p. i \<le> p \<Longrightarrow> p < k \<Longrightarrow> \<not> checkPortInUsed e (Sprint p))
     \<Longrightarrow> generateRGWPortToUse_loop e maxPort i = Sprint k"
proof (induction e maxPort i rule: generateRGWPortToUse_loop.induct)
  case (1 e maxPort i)
  show ?case
  proof (cases "i = k")
    case True
    then show ?thesis
      using "1.prems" by (subst generateRGWPortToUse_loop.simps) simp
  next
    case False
    then have lt: "i < k" using "1.prems" by simp
    then have here: "\<not> checkPortInUsed e (Sprint i)" using "1.prems" by simp
    have "generateRGWPortToUse_loop e maxPort (Suc i) = Sprint k"
      using lt here "1.prems" by (intro "1.IH") auto
    then show ?thesis
      using lt here "1.prems" by (subst generateRGWPortToUse_loop.simps) simp
  qed
qed

text \<open>
  C4.  \<open>generateRGWPortToUse\<close> tries the ports 8000 to 8100 in ascending order, each
  with one TCP connection attempt to \<open>0.0.0.0:port\<close> with a timeout of 1 second.  When
  every attempt connects it returns \<open>notfound\<close>.  When the attempt fails for a port
  \<open>k\<close> of the range and connects for every smaller port of the range, it returns the
  decimal string of \<open>k\<close>; so it does when \<open>k\<close> is the only free port.
\<close>

theorem generateRGWPortToUse_first_free:
  "((\<forall>p. 8000 \<le> p \<and> p \<le> 8100 \<longrightarrow>
        DialTimeout e ''tcp'' (''0.0.0.0:'' @ Sprint p) 1 = None)
      \<longrightarrow> generateRGWPortToUse e = ''notfound'')
   \<and> (8000 \<le> k \<and> k \<le> 8100
        \<and> DialTimeout e ''tcp'' (''0.0.0.0:'' @ Sprint k) 1 \<noteq> None
        \<and> (\<forall>p. 8000 \<le> p \<and> p < k \<longrightarrow>
              DialTimeout e ''tcp'' (''0.0.0.0:'' @ Sprint p) 1 = None)
      \<longrightarrow> generateRGWPortToUse e = Sprint k)"
proof (intro conjI impI)
  assume "\<forall>p. 8000 \<le> p \<and> p \<le> 8100 \<longrightarrow>
            DialTimeout e ''tcp'' (''0.0.0.0:'' @ Sprint p) 1 = None"
  then show "generateRGWPortToUse e = ''notfound''"
    unfolding generateRGWPortToUse_def
    by (intro loop_notfound) (simp add: checkPortInUsed_dial)
next
  assume h: "8000 \<le> k \<and> k \<le> 8100
        \<and> DialTimeout e ''tcp'' (''0.0.0.0:'' @ Sprint k) 1 \<noteq> None
        \<and> (\<forall>p. 8000 \<le> p \<and> p < k \<longrightarrow>
              DialTimeout e ''tcp'' (''0.0.0.0:'' @ Sprint p) 1 = None)"
  show "generateRGWPortToUse e = Sprint k"
    unfolding generateRGWPortToUse_def
    using h by (intro loop_first_free) (simp_all add: checkPortInUsed_dial)
qed

theorem generateRGWPortToUse_first_free_witness:
  "generateRGWPortToUse (env0\<lparr>DialTimeout := (\<lambda>network address seconds. None)\<rparr>) = ''notfound''
   \<and> generateRGWPortToUse
        (env0\<lparr>DialTimeout := (\<lambda>network address seconds.
           if address = ''0.0.0.0:8000'' then None else Some ''connection refused'')\<rparr>)
      = ''8001''"
proof -
  let ?full = "env0\<lparr>DialTimeout := (\<lambda>network address seconds. None)\<rparr>"
  let ?one = "env0\<lparr>DialTimeout := (\<lambda>network address seconds.
           if address = ''0.0.0.0:8000'' then None else Some ''connection refused'')\<rparr>"
  have free: "DialTimeout ?one ''tcp'' (''0.0.0.0:'' @ Sprint 8001) 1 \<noteq> None"
    by (simp add: Sprint.simps digit_def)
  have used: "\<forall>p. 8000 \<le> p \<and> p < 8001 \<longrightarrow>
                DialTimeout ?one ''tcp'' (''0.0.0.0:'' @ Sprint p) 1 = None"
  proof (intro allI impI)
    fix p :: nat
    assume "8000 \<le> p \<and> p < 8001"
    then have "p = 8000" by arith
    then show "DialTimeout ?one ''tcp'' (''0.0.0.0:'' @ Sprint p) 1 = None"
      by (simp add: Sprint.simps digit_def)
  qed
  have a: "generateRGWPortToUse ?full = ''notfound''"
    using generateRGWPortToUse_first_free [of ?full 8000] by simp
  have "generateRGWPortToUse ?one = Sprint 8001"
    using generateRGWPortToUse_first_free [of ?one 8001] free used by simp
  then have b: "generateRGWPortToUse ?one = ''8001''"
    by (simp add: Sprint.simps digit_def)
  from a b show ?thesis by simp
qed

subsection \<open>Internal health\<close>

text \<open>\<open>Contains\<close> is the substring relation.\<close>

lemma HasPrefix_iff: "HasPrefix s p \<longleftrightarrow> (\<exists>rest. s = p @ rest)"
  by (induction s p rule: HasPrefix.induct) auto

lemma Contains_iff: "Contains s substr \<longleftrightarrow> (\<exists>before after. s = before @ substr @ after)"
proof (induction s)
  case Nil
  then show ?case by auto
next
  case (Cons c s)
  show ?case
  proof
    assume "Contains (c # s) substr"
    then consider "HasPrefix (c # s) substr" | "Contains s substr" by auto
    then show "\<exists>before after. c # s = before @ substr @ after"
    proof cases
      case 1
      then obtain rest where "c # s = substr @ rest" by (auto simp: HasPrefix_iff)
      then have "c # s = [] @ substr @ rest" by simp
      then show ?thesis by blast
    next
      case 2
      then obtain before after where "s = before @ substr @ after" using Cons.IH by auto
      then have "c # s = (c # before) @ substr @ after" by simp
      then show ?thesis by blast
    qed
  next
    assume "\<exists>before after. c # s = before @ substr @ after"
    then obtain before after where eq: "c # s = before @ substr @ after" by auto
    show "Contains (c # s) substr"
    proof (cases before)
      case Nil
      then have "HasPrefix (c # s) substr" using eq by (auto simp: HasPrefix_iff)
      then show ?thesis by simp
    next
      case (Cons b before')
      then have "s = before' @ substr @ after" using eq by simp
      then have "Contains s substr" using Cons.IH by auto
      then show ?thesis by simp
    qed
  qed
qed

lemma grepForSuccess_absent:
  "ContainerLogs e (logRequests s) n = Inr c \<Longrightarrow> \<not> Contains c ''SUCCESS''
     \<Longrightarrow> grepForSuccess e n s = (Return False, s\<lparr>logRequests := Suc (logRequests s)\<rparr>)"
  by (simp add: grepForSuccess_def ContainerLogs_call_def)

lemma grepForSuccess_present:
  "ContainerLogs e (logRequests s) n = Inr c \<Longrightarrow> Contains c ''SUCCESS''
     \<Longrightarrow> grepForSuccess e n s = (Return True, s\<lparr>logRequests := Suc (logRequests s)\<rparr>)"
  by (simp add: grepForSuccess_def ContainerLogs_call_def)

lemma cephNanoHealth_loop_found:
  "poll + j < timeout
   \<Longrightarrow> (\<And>i. i < j \<Longrightarrow> \<exists>c. ContainerLogs e (logRequests s + i) n = Inr c \<and> \<not> Contains c ''SUCCESS'')
   \<Longrightarrow> ContainerLogs e (logRequests s + j) n = Inr c \<Longrightarrow> Contains c ''SUCCESS''
   \<Longrightarrow> cephNanoHealth_loop e n timeout poll s
       = (Return True, s\<lparr>logRequests := logRequests s + j + 1, slept := slept s + j\<rparr>)"
proof (induction j arbitrary: poll s)
  case 0
  then have "grepForSuccess e n s = (Return True, s\<lparr>logRequests := Suc (logRequests s)\<rparr>)"
    by (intro grepForSuccess_present[where c = c]) auto
  then show ?case using 0
    by (subst cephNanoHealth_loop.simps) simp
next
  case (Suc j)
  from Suc.prems(2)[of 0] obtain c0 where
    c0: "ContainerLogs e (logRequests s) n = Inr c0" "\<not> Contains c0 ''SUCCESS''" by auto
  let ?s1 = "Sleep 1 (s\<lparr>logRequests := Suc (logRequests s)\<rparr>)"
  have g: "grepForSuccess e n s = (Return False, s\<lparr>logRequests := Suc (logRequests s)\<rparr>)"
    using c0 by (rule grepForSuccess_absent)
  have rest: "cephNanoHealth_loop e n timeout (Suc poll) ?s1
       = (Return True, ?s1\<lparr>logRequests := logRequests ?s1 + j + 1, slept := slept ?s1 + j\<rparr>)"
  proof (rule Suc.IH)
    show "Suc poll + j < timeout" using Suc.prems(1) by simp
    show "\<exists>c. ContainerLogs e (logRequests ?s1 + i) n = Inr c \<and> \<not> Contains c ''SUCCESS''"
      if "i < j" for i
      using Suc.prems(2)[of "Suc i"] that by (simp add: Sleep_def)
    show "ContainerLogs e (logRequests ?s1 + j) n = Inr c"
      using Suc.prems(3) by (simp add: Sleep_def)
    show "Contains c ''SUCCESS''" by fact
  qed
  have "poll < timeout" using Suc.prems(1) by simp
  then have "cephNanoHealth_loop e n timeout poll s
               = cephNanoHealth_loop e n timeout (Suc poll) ?s1"
    by (subst cephNanoHealth_loop.simps) (simp add: g)
  then show ?case using rest by (simp add: Sleep_def)
qed

lemma cephNanoHealth_loop_exhausted:
  "timeout - poll = d
   \<Longrightarrow> (\<And>i. i < d \<Longrightarrow> \<exists>c. ContainerLogs e (logRequests s + i) n = Inr c \<and> \<not> Contains c ''SUCCESS'')
   \<Longrightarrow> cephNanoHealth_loop e n timeout poll s
       = (Return False, s\<lparr>logRequests := logRequests s + d, slept := slept s + d\<rparr>)"
proof (induction d arbitrary: poll s)
  case 0
  then show ?case by (subst cephNanoHealth_loop.simps) simp
next
  case (Suc d)
  from Suc.prems(2)[of 0] obtain c0 where
    c0: "ContainerLogs e (logRequests s) n = Inr c0" "\<not> Contains c0 ''SUCCESS''" by auto
  let ?s1 = "Sleep 1 (s\<lparr>logRequests := Suc (logRequests s)\<rparr>)"
  have g: "grepForSuccess e n s = (Return False, s\<lparr>logRequests := Suc (logRequests s)\<rparr>)"
    using c0 by (rule grepForSuccess_absent)
  have rest: "cephNanoHealth_loop e n timeout (Suc poll) ?s1
       = (Return False, ?s1\<lparr>logRequests := logRequests ?s1 + d, slept := slept ?s1 + d\<rparr>)"
  proof (rule Suc.IH)
    show "timeout - Suc poll = d" using Suc.prems(1) by simp
    show "\<exists>c. ContainerLogs e (logRequests ?s1 + i) n = Inr c \<and> \<not> Contains c ''SUCCESS''"
      if "i < d" for i
      using Suc.prems(2)[of "Suc i"] that by (simp add: Sleep_def)
  qed
  have "poll < timeout" using Suc.prems(1) by simp
  then have "cephNanoHealth_loop e n timeout poll s
               = cephNanoHealth_loop e n timeout (Suc poll) ?s1"
    by (subst cephNanoHealth_loop.simps) (simp add: g)
  then show ?case using rest by (simp add: Sleep_def)
qed

text \<open>
  C2.  The log stream answers each request with the log written so far.  When the
  marker \<open>SUCCESS\<close> is in the log for the first time at attempt \<open>j + 1\<close>, with
  \<open>j < 60\<close>, \<open>cephNanoHealth\<close> returns after exactly \<open>j + 1\<close> requests and
  \<open>j\<close> seconds of sleep, having printed nothing.  When the marker is in none of the
  60 attempts, it prints the notice and the log it fetches then, writes the fixed
  message to standard error and exits with status 1.
\<close>

theorem cephNanoHealth_polls:
  "(j < 60
      \<and> (\<forall>i<j. \<exists>c. ContainerLogs e (logRequests s + i) n = Inr c \<and> \<not> Contains c ''SUCCESS'')
      \<and> ContainerLogs e (logRequests s + j) n = Inr found \<and> Contains found ''SUCCESS''
    \<longrightarrow> cephNanoHealth e n s
          = (Return (), s\<lparr>logRequests := logRequests s + j + 1, slept := slept s + j\<rparr>))
   \<and> ((\<forall>i<60. \<exists>c. ContainerLogs e (logRequests s + i) n = Inr c \<and> \<not> Contains c ''SUCCESS'')
      \<and> ContainerLogs e (logRequests s + 60) n = Inr dump
    \<longrightarrow> cephNanoHealth e n s
          = (Exit 1,
             s\<lparr>logRequests := logRequests s + 61, slept := slept s + 60,
               stdout := stdout s @ [''The container '' @ n
                  @ '' never reached a clean state. Showing the container logs now:'', dump],
               stderr := stderr s
                  @ [''Please open an issue at: https://github.com/ceph/cn with the logs above.'']\<rparr>))"
proof (intro conjI impI)
  assume h: "j < 60
      \<and> (\<forall>i<j. \<exists>c. ContainerLogs e (logRequests s + i) n = Inr c \<and> \<not> Contains c ''SUCCESS'')
      \<and> ContainerLogs e (logRequests s + j) n = Inr found \<and> Contains found ''SUCCESS''"
  have "cephNanoHealth_loop e n 60 0 s
       = (Return True, s\<lparr>logRequests := logRequests s + j + 1, slept := slept s + j\<rparr>)"
    using h by (intro cephNanoHealth_loop_found[where c = found]) auto
  then show "cephNanoHealth e n s
          = (Return (), s\<lparr>logRequests := logRequests s + j + 1, slept := slept s + j\<rparr>)"
    by (simp add: cephNanoHealth_def andThen_def lift_def)
next
  assume h: "(\<forall>i<60. \<exists>c. ContainerLogs e (logRequests s + i) n = Inr c \<and> \<not> Contains c ''SUCCESS'')
      \<and> ContainerLogs e (logRequests s + 60) n = Inr dump"
  have "cephNanoHealth_loop e n 60 0 s
       = (Return False, s\<lparr>logRequests := logRequests s + 60, slept := slept s + 60\<rparr>)"
    using h by (intro cephNanoHealth_loop_exhausted) auto
  then show "cephNanoHealth e n s
          = (Exit 1,
             s\<lparr>logRequests := logRequests s + 61, slept := slept s + 60,
               stdout := stdout s @ [''The container '' @ n
                  @ '' never reached a clean state. Showing the container logs now:'', dump],
               stderr := stderr s
                  @ [''Please open an issue at: https://github.com/ceph/cn with the logs above.'']\<rparr>)"
    using h
    by (simp add: cephNanoHealth_def andThen_def lift_def ContainerLogs_call_def Println_def
          Fatal_def)
qed

theorem cephNanoHealth_polls_witness:
  "cephNanoHealth
     (env0\<lparr>ContainerLogs := (\<lambda>k name.
        if k < 2 then Inr ''starting'' else Inr ''starting ... SUCCESS'')\<rparr>)
     ''ceph-nano-a'' state0
     = (Return (), state0\<lparr>logRequests := 3, slept := 2\<rparr>)
   \<and> cephNanoHealth (env0\<lparr>ContainerLogs := (\<lambda>k name. Inr ''starting'')\<rparr>)
     ''ceph-nano-a'' state0
     = (Exit 1,
        state0\<lparr>logRequests := 61, slept := 60,
          stdout := [''The container ceph-nano-a never reached a clean state. Showing the container logs now:'',
                     ''starting''],
          stderr := [''Please open an issue at: https://github.com/ceph/cn with the logs above.'']\<rparr>)"
proof -
  let ?up = "env0\<lparr>ContainerLogs := (\<lambda>k name.
        if k < 2 then Inr ''starting'' else Inr ''starting ... SUCCESS'')\<rparr>"
  let ?down = "env0\<lparr>ContainerLogs := (\<lambda>k name. Inr ''starting'')\<rparr>"
  have up: "cephNanoHealth ?up ''ceph-nano-a'' state0
              = (Return (), state0\<lparr>logRequests := 3, slept := 2\<rparr>)"
    using cephNanoHealth_polls
            [of 2 ?up state0 "''ceph-nano-a''" "''starting ... SUCCESS''" "''starting''"]
    by (simp add: state0_def)
  have down: "cephNanoHealth ?down ''ceph-nano-a'' state0
     = (Exit 1,
        state0\<lparr>logRequests := 61, slept := 60,
          stdout := [''The container ceph-nano-a never reached a clean state. Showing the container logs now:'',
                     ''starting''],
          stderr := [''Please open an issue at: https://github.com/ceph/cn with the logs above.'']\<rparr>)"
    using cephNanoHealth_polls
            [of 2 ?down state0 "''ceph-nano-a''" "''starting''" "''starting''"]
    by (simp add: state0_def)
  from up down show ?thesis by simp
qed

subsection \<open>Network selector\<close>

lemma To4_length: "To4 ip = Some p \<Longrightarrow> length p = 4"
  by (auto simp: To4_def split: if_splits)

lemma lastOctet_IPv4:
  assumes "To4 ip \<noteq> None"
  shows "\<exists>a. lastOctet ip = Return a"
proof -
  from assms obtain p where p: "To4 ip = Some p" by auto
  then have "length p = 4" by (rule To4_length)
  then show ?thesis using p by (simp add: lastOctet_def)
qed

lemma descending_trans: "descending x y \<Longrightarrow> descending y z \<Longrightarrow> descending x z"
  by (auto simp: descending_def)

lemma Reverse_Less:
  "lastOctet x = Return a \<Longrightarrow> lastOctet y = Return b
     \<Longrightarrow> Reverse Less x y = Return (b < a)"
  by (simp add: Reverse_def Less_def obind_def)

text \<open>The sorted part is kept in reverse, so it ascends from its head.\<close>

lemma insertBack_sorted:
  assumes "To4 x \<noteq> None" and "\<forall>y \<in> set rs. To4 y \<noteq> None"
    and "sorted_wrt (\<lambda>u v. descending v u) rs"
  shows "\<exists>rs'. insertBack (Reverse Less) x rs = Return rs'
            \<and> mset rs' = add_mset x (mset rs)
            \<and> sorted_wrt (\<lambda>u v. descending v u) rs'"
  using assms
proof (induction rs)
  case Nil
  then show ?case by simp
next
  case (Cons y rs)
  obtain a where a: "lastOctet x = Return a" using Cons.prems(1) lastOctet_IPv4 by blast
  obtain b where b: "lastOctet y = Return b" using Cons.prems(2) lastOctet_IPv4 by fastforce
  have lt: "Reverse Less x y = Return (b < a)" using a b by (rule Reverse_Less)
  show ?case
  proof (cases "b < a")
    case True
    from Cons obtain rs' where rs': "insertBack (Reverse Less) x rs = Return rs'"
      "mset rs' = add_mset x (mset rs)" "sorted_wrt (\<lambda>u v. descending v u) rs'"
      by auto
    have xy: "descending x y" using a b True by (auto simp: descending_def)
    have "\<forall>v \<in> set rs'. descending v y"
    proof
      fix v assume "v \<in> set rs'"
      then have "v \<in># add_mset x (mset rs)" using rs'(2) by (metis set_mset_mset)
      then have "v = x \<or> v \<in> set rs" by auto
      then show "descending v y" using xy Cons.prems(3) by auto
    qed
    then have "sorted_wrt (\<lambda>u v. descending v u) (y # rs')" using rs'(3) by simp
    then show ?thesis using True lt rs' by (simp add: obind_def)
  next
    case False
    then have yx: "descending y x" using a b by (auto simp: descending_def)
    have "\<forall>v \<in> set rs. descending v x"
      using Cons.prems(3) yx by (auto intro: descending_trans)
    then have "sorted_wrt (\<lambda>u v. descending v u) (x # y # rs)"
      using Cons.prems(3) yx by simp
    then show ?thesis using False lt by (simp add: obind_def)
  qed
qed

lemma insertionSort_sorted:
  assumes "\<forall>y \<in> set rs. To4 y \<noteq> None" and "\<forall>x \<in> set xs. To4 x \<noteq> None"
    and "sorted_wrt (\<lambda>u v. descending v u) rs"
  shows "\<exists>out. insertionSort (Reverse Less) rs xs = Return out
            \<and> mset out = mset rs + mset xs
            \<and> sorted_wrt descending out"
  using assms
proof (induction xs arbitrary: rs)
  case Nil
  then show ?case by (simp add: sorted_wrt_rev)
next
  case (Cons x xs)
  from insertBack_sorted[of x rs] Cons.prems obtain rs' where
    rs': "insertBack (Reverse Less) x rs = Return rs'" "mset rs' = add_mset x (mset rs)"
      "sorted_wrt (\<lambda>u v. descending v u) rs'" by auto
  have "\<forall>y \<in> set rs'. To4 y \<noteq> None"
  proof
    fix y assume "y \<in> set rs'"
    then have "y \<in># add_mset x (mset rs)" using rs'(2) by (metis set_mset_mset)
    then show "To4 y \<noteq> None" using Cons.prems by auto
  qed
  with Cons.IH[of rs'] Cons.prems rs'(3) obtain out where
    "insertionSort (Reverse Less) rs' xs = Return out" "mset out = mset rs' + mset xs"
    "sorted_wrt descending out" by auto
  then show ?case using rs' by (simp add: obind_def)
qed

lemma Sort_sorted:
  assumes "\<forall>x \<in> set xs. To4 x \<noteq> None"
  shows "\<exists>out. Sort (Reverse Less) xs = Return out \<and> mset out = mset xs
            \<and> sorted_wrt descending out"
  using insertionSort_sorted[of "[]" xs] assms by (simp add: Sort_def)

lemma collectIPv4s_IPv4:
  "collectIPv4s e addrs nips = Inr out \<Longrightarrow> \<forall>x \<in> set nips. To4 x \<noteq> None
     \<Longrightarrow> \<forall>x \<in> set out. To4 x \<noteq> None"
proof (induction addrs arbitrary: nips)
  case Nil
  then show ?case by simp
next
  case (Cons addr addrs)
  show ?case
  proof (cases "Network addr = ''ip+net''")
    case False
    then have "collectIPv4s e addrs nips = Inr out" using Cons.prems(1) by simp
    then show ?thesis using Cons.IH Cons.prems(2) by blast
  next
    case True
    show ?thesis
    proof (cases "ParseCIDR e (String addr)")
      case (Inl err)
      then show ?thesis using True Cons.prems(1) by simp
    next
      case (Inr nip)
      show ?thesis
      proof (cases "To4 nip")
        case None
        then have "collectIPv4s e addrs nips = Inr out"
          using True Inr Cons.prems(1) by simp
        then show ?thesis using Cons.IH Cons.prems(2) by blast
      next
        case (Some p)
        then have "collectIPv4s e addrs (nips @ [nip]) = Inr out"
          using True Inr Cons.prems(1) by simp
        moreover have "\<forall>x \<in> set (nips @ [nip]). To4 x \<noteq> None"
          using Some Cons.prems(2) by simp
        ultimately show ?thesis using Cons.IH by blast
      qed
    qed
  qed
qed

lemma collectIPv4s_none:
  "\<forall>a \<in> set addrs. Network a = ''ip+net'' \<longrightarrow>
       (\<exists>ip. ParseCIDR e (String a) = Inr ip \<and> To4 ip = None)
     \<Longrightarrow> collectIPv4s e addrs nips = Inr nips"
proof (induction addrs)
  case Nil
  then show ?case by simp
next
  case (Cons addr addrs)
  then have rest: "collectIPv4s e addrs nips = Inr nips" by simp
  show ?case
  proof (cases "Network addr = ''ip+net''")
    case False
    then show ?thesis using rest by simp
  next
    case True
    then obtain ip where "ParseCIDR e (String addr) = Inr ip" "To4 ip = None"
      using Cons.prems by auto
    then show ?thesis using True rest by simp
  qed
qed

lemma getInterfaceIPv4s_returns:
  "\<exists>r. getInterfaceIPv4s e = Return r"
proof (cases "InterfaceAddrs e")
  case (Inl err)
  then show ?thesis by (simp add: getInterfaceIPv4s_def)
next
  case (Inr addrs)
  show ?thesis
  proof (cases "collectIPv4s e addrs []")
    case (Inl err)
    then show ?thesis using Inr by (simp add: getInterfaceIPv4s_def)
  next
    case nips: (Inr nips)
    then have "\<forall>x \<in> set nips. To4 x \<noteq> None" using collectIPv4s_IPv4 by fastforce
    then obtain out where "Sort (Reverse Less) nips = Return out" using Sort_sorted by blast
    then show ?thesis using Inr nips by (simp add: getInterfaceIPv4s_def obind_def)
  qed
qed

lemma getInterfaceIPv4s_sorted:
  assumes "InterfaceAddrs e = Inr addrs" and "collectIPv4s e addrs [] = Inr nips"
  shows "\<exists>ips. getInterfaceIPv4s e = Return (Inr ips) \<and> mset ips = mset nips
            \<and> sorted_wrt descending ips"
proof -
  have "\<forall>x \<in> set nips. To4 x \<noteq> None" using assms(2) collectIPv4s_IPv4 by fastforce
  then obtain out where "Sort (Reverse Less) nips = Return out" "mset out = mset nips"
    "sorted_wrt descending out" using Sort_sorted by blast
  then show ?thesis using assms by (simp add: getInterfaceIPv4s_def obind_def)
qed

text \<open>
  C5.  The addresses \<open>getInterfaceIPv4s\<close> returns are the IPv4 addresses it collected,
  in descending order of their last octet: each address has a last octet greater than or
  equal to that of every address after it.  Addresses with the last octets 1, 200 and 50,
  collected in that order, are returned in the order 200, 50, 1.
\<close>

theorem getInterfaceIPv4s_descending:
  "(getInterfaceIPv4s e = Return (Inr ips) \<longrightarrow> sorted_wrt descending ips)
   \<and> (InterfaceAddrs e = Inr addrs \<and> collectIPv4s e addrs [] = Inr nips \<longrightarrow>
        (\<exists>sorted. getInterfaceIPv4s e = Return (Inr sorted) \<and> mset sorted = mset nips))
   \<and> (InterfaceAddrs e = Inr addrs \<and> collectIPv4s e addrs [] = Inr [x, y, z]
        \<and> lastOctet x = Return 1 \<and> lastOctet y = Return 200 \<and> lastOctet z = Return 50 \<longrightarrow>
        getInterfaceIPv4s e = Return (Inr [y, z, x]))"
proof (intro conjI impI)
  assume ret: "getInterfaceIPv4s e = Return (Inr ips)"
  show "sorted_wrt descending ips"
  proof (cases "InterfaceAddrs e")
    case (Inl err)
    then show ?thesis using ret by (simp add: getInterfaceIPv4s_def)
  next
    case (Inr addrs')
    show ?thesis
    proof (cases "collectIPv4s e addrs' []")
      case (Inl err)
      then show ?thesis using ret Inr by (simp add: getInterfaceIPv4s_def)
    next
      case nips: (Inr nips')
      from getInterfaceIPv4s_sorted[OF Inr nips] ret show ?thesis by auto
    qed
  qed
next
  assume "InterfaceAddrs e = Inr addrs \<and> collectIPv4s e addrs [] = Inr nips"
  then show "\<exists>sorted. getInterfaceIPv4s e = Return (Inr sorted) \<and> mset sorted = mset nips"
    using getInterfaceIPv4s_sorted[of e addrs nips] by auto
next
  assume "InterfaceAddrs e = Inr addrs \<and> collectIPv4s e addrs [] = Inr [x, y, z]
        \<and> lastOctet x = Return 1 \<and> lastOctet y = Return 200 \<and> lastOctet z = Return 50"
  then show "getInterfaceIPv4s e = Return (Inr [y, z, x])"
    by (simp add: getInterfaceIPv4s_def Sort_def obind_def Reverse_def Less_def)
qed

theorem getInterfaceIPv4s_descending_witness:
  "getInterfaceIPv4s (env0\<lparr>InterfaceAddrs := Inr hostAddrs, ParseCIDR := hostParseCIDR\<rparr>)
     = Return (Inr [[192, 168, 0, 200], [10, 0, 0, 50],
                    [0, 0, 0, 0, 0, 0, 0, 0, 0, 0, 0xff, 0xff, 127, 0, 0, 1]])"
proof -
  let ?e = "env0\<lparr>InterfaceAddrs := Inr hostAddrs, ParseCIDR := hostParseCIDR\<rparr>"
  let ?x = "[0, 0, 0, 0, 0, 0, 0, 0, 0, 0, 0xff, 0xff, 127, 0, 0, 1] :: IP"
  let ?y = "[192, 168, 0, 200] :: IP"
  let ?z = "[10, 0, 0, 50] :: IP"
  have collected: "collectIPv4s ?e hostAddrs [] = Inr [?x, ?y, ?z]"
    by (simp add: hostAddrs_def hostParseCIDR_def To4_def)
  have x: "lastOctet ?x = Return 1" by (simp add: lastOctet_def To4_def)
  have y: "lastOctet ?y = Return 200" by (simp add: lastOctet_def To4_def)
  have z: "lastOctet ?z = Return 50" by (simp add: lastOctet_def To4_def)
  show ?thesis
    using getInterfaceIPv4s_descending [of ?e "[]" hostAddrs "[]" ?x ?y ?z] collected x y z
    by simp
qed

text \<open>
  C9.  When the addresses of the host can be read and parsed and none of them is an IPv4
  address, \<open>getInterfaceIPv4s\<close> returns the empty sequence and no error; then
  \<open>cephNanoS3Health\<close> panics at \<open>ips[0]\<close>, before any request to the gateway.
\<close>

theorem cephNanoS3Health_panics_without_IPv4:
  "InterfaceAddrs e = Inr addrs
   \<and> (\<forall>a \<in> set addrs. Network a = ''ip+net'' \<longrightarrow>
          (\<exists>ip. ParseCIDR e (String a) = Inr ip \<and> To4 ip = None))
   \<longrightarrow> getInterfaceIPv4s e = Return (Inr [])
       \<and> cephNanoS3Health e ContainerName RgwPort s = (Panic, s)"
proof (intro impI)
  assume h: "InterfaceAddrs e = Inr addrs
   \<and> (\<forall>a \<in> set addrs. Network a = ''ip+net'' \<longrightarrow>
          (\<exists>ip. ParseCIDR e (String a) = Inr ip \<and> To4 ip = None))"
  then have "collectIPv4s e addrs [] = Inr []" by (intro collectIPv4s_none) simp
  then have empty: "getInterfaceIPv4s e = Return (Inr [])"
    using h by (simp add: getInterfaceIPv4s_def Sort_def obind_def)
  then show "getInterfaceIPv4s e = Return (Inr [])
       \<and> cephNanoS3Health e ContainerName RgwPort s = (Panic, s)"
    by (simp add: cephNanoS3Health_def andThen_def lift_def dropError_def index0_def)
qed

theorem cephNanoS3Health_panics_without_IPv4_witness:
  "getInterfaceIPv4s
     (env0\<lparr>InterfaceAddrs := Inr [\<lparr>Network = ''ip+net'', String = ''::1/128''\<rparr>],
           ParseCIDR := hostParseCIDR\<rparr>) = Return (Inr [])
   \<and> cephNanoS3Health
     (env0\<lparr>InterfaceAddrs := Inr [\<lparr>Network = ''ip+net'', String = ''::1/128''\<rparr>],
           ParseCIDR := hostParseCIDR\<rparr>) ''ceph-nano-a'' ''8000'' state0 = (Panic, state0)"
proof -
  let ?e = "env0\<lparr>InterfaceAddrs := Inr [\<lparr>Network = ''ip+net'', String = ''::1/128''\<rparr>],
                 ParseCIDR := hostParseCIDR\<rparr>"
  have "To4 [0, 0, 0, 0, 0, 0, 0, 0, 0, 0, 0, 0, 0, 0, 0, 1] = None"
    by (simp add: To4_def)
  then have "\<forall>a \<in> set [\<lparr>Network = ''ip+net'', String = ''::1/128''\<rparr>].
          Network a = ''ip+net'' \<longrightarrow> (\<exists>ip. ParseCIDR ?e (String a) = Inr ip \<and> To4 ip = None)"
    by (simp add: hostParseCIDR_def)
  then show ?thesis
    using cephNanoS3Health_panics_without_IPv4
            [of ?e "[\<lparr>Network = ''ip+net'', String = ''::1/128''\<rparr>]" "''ceph-nano-a''"
                "''8000''" state0]
    by simp
qed

subsection \<open>External health\<close>

lemma curlTestURL_delivered:
  "curlTestURL e url s
     = (Return (delivered e (length (httpRequests s)) url),
        s\<lparr>httpRequests := httpRequests s @ [url]\<rparr>)"
  by (auto simp: curlTestURL_def delivered_def split: sum.splits)

lemma replicate_snoc: "replicate k x @ [x] = x # replicate k x"
  by (induction k) auto

lemma cephNanoS3Health_loop_delivered:
  "poll + j < timeout
   \<Longrightarrow> (\<And>i. i < j \<Longrightarrow> \<not> delivered e (length (httpRequests s) + i) url)
   \<Longrightarrow> delivered e (length (httpRequests s) + j) url
   \<Longrightarrow> cephNanoS3Health_loop e url timeout poll s
       = (Return True,
          s\<lparr>httpRequests := httpRequests s @ replicate (Suc j) url, slept := slept s + j\<rparr>)"
proof (induction j arbitrary: poll s)
  case 0
  then show ?case
    by (subst cephNanoS3Health_loop.simps) (simp add: curlTestURL_delivered)
next
  case (Suc j)
  let ?s1 = "Sleep 1 (s\<lparr>httpRequests := httpRequests s @ [url]\<rparr>)"
  have miss: "\<not> delivered e (length (httpRequests s)) url" using Suc.prems(2)[of 0] by simp
  have rest: "cephNanoS3Health_loop e url timeout (Suc poll) ?s1
       = (Return True,
          ?s1\<lparr>httpRequests := httpRequests ?s1 @ replicate (Suc j) url,
              slept := slept ?s1 + j\<rparr>)"
  proof (rule Suc.IH)
    show "Suc poll + j < timeout" using Suc.prems(1) by simp
    show "\<not> delivered e (length (httpRequests ?s1) + i) url" if "i < j" for i
      using Suc.prems(2)[of "Suc i"] that by (simp add: Sleep_def)
    show "delivered e (length (httpRequests ?s1) + j) url"
      using Suc.prems(3) by (simp add: Sleep_def)
  qed
  have "poll < timeout" using Suc.prems(1) by simp
  then have "cephNanoS3Health_loop e url timeout poll s
               = cephNanoS3Health_loop e url timeout (Suc poll) ?s1"
    by (subst cephNanoS3Health_loop.simps) (simp add: curlTestURL_delivered miss)
  then show ?case using rest by (simp add: Sleep_def)
qed

lemma cephNanoS3Health_loop_exhausted:
  "timeout - poll = d
   \<Longrightarrow> (\<And>i. i < d \<Longrightarrow> \<not> delivered e (length (httpRequests s) + i) url)
   \<Longrightarrow> cephNanoS3Health_loop e url timeout poll s
       = (Return False,
          s\<lparr>httpRequests := httpRequests s @ replicate d url, slept := slept s + d\<rparr>)"
proof (induction d arbitrary: poll s)
  case 0
  then show ?case by (subst cephNanoS3Health_loop.simps) simp
next
  case (Suc d)
  let ?s1 = "Sleep 1 (s\<lparr>httpRequests := httpRequests s @ [url]\<rparr>)"
  have miss: "\<not> delivered e (length (httpRequests s)) url" using Suc.prems(2)[of 0] by simp
  have rest: "cephNanoS3Health_loop e url timeout (Suc poll) ?s1
       = (Return False,
          ?s1\<lparr>httpRequests := httpRequests ?s1 @ replicate d url, slept := slept ?s1 + d\<rparr>)"
  proof (rule Suc.IH)
    show "timeout - Suc poll = d" using Suc.prems(1) by simp
    show "\<not> delivered e (length (httpRequests ?s1) + i) url" if "i < d" for i
      using Suc.prems(2)[of "Suc i"] that by (simp add: Sleep_def)
  qed
  have "poll < timeout" using Suc.prems(1) by simp
  then have "cephNanoS3Health_loop e url timeout poll s
               = cephNanoS3Health_loop e url timeout (Suc poll) ?s1"
    by (subst cephNanoS3Health_loop.simps) (simp add: curlTestURL_delivered miss)
  then show ?case using rest by (simp add: Sleep_def)
qed

lemma cephNanoS3Health_loop_requests:
  "cephNanoS3Health_loop e url timeout poll s = (r, s')
     \<Longrightarrow> \<exists>k \<le> timeout - poll. httpRequests s' = httpRequests s @ replicate k url"
proof (induction e url timeout poll s rule: cephNanoS3Health_loop.induct)
  case (1 e url timeout poll s)
  show ?case
  proof (cases "poll < timeout")
    case False
    then have "s' = s" using "1.prems" by (subst (asm) cephNanoS3Health_loop.simps) simp
    then show ?thesis by simp
  next
    case True
    let ?s0 = "s\<lparr>httpRequests := httpRequests s @ [url]\<rparr>"
    show ?thesis
    proof (cases "delivered e (length (httpRequests s)) url")
      case yes: True
      then have "s' = ?s0" using True "1.prems"
        by (subst (asm) cephNanoS3Health_loop.simps) (simp add: curlTestURL_delivered)
      then have "httpRequests s' = httpRequests s @ replicate 1 url" by simp
      moreover have "1 \<le> timeout - poll" using True by simp
      ultimately show ?thesis by blast
    next
      case no: False
      have next_turn: "cephNanoS3Health_loop e url timeout (Suc poll) (Sleep 1 ?s0) = (r, s')"
        using True no "1.prems"
        by (subst (asm) cephNanoS3Health_loop.simps) (simp add: curlTestURL_delivered)
      have "\<exists>k \<le> timeout - Suc poll.
              httpRequests s' = httpRequests (Sleep 1 ?s0) @ replicate k url"
        using True no next_turn
        by (intro "1.IH") (simp_all add: curlTestURL_delivered)
      then obtain k where k: "k \<le> timeout - Suc poll"
        "httpRequests s' = httpRequests (Sleep 1 ?s0) @ replicate k url" by blast
      then have "httpRequests s' = httpRequests s @ replicate (Suc k) url"
        by (simp add: Sleep_def replicate_snoc)
      moreover have "Suc k \<le> timeout - poll" using k(1) True by simp
      ultimately show ?thesis by blast
    qed
  qed
qed

lemma dockerInspect_state:
  "dockerInspect e n pattern s = (Return v, s') \<Longrightarrow> s' = s"
  by (auto simp: dockerInspect_def Fatal_def split: sum.splits if_splits)

lemma dockerInspect_httpRequests:
  "dockerInspect e n pattern s = (r, s') \<Longrightarrow> httpRequests s' = httpRequests s"
  by (auto simp: dockerInspect_def Fatal_def split: sum.splits if_splits)

lemma grepForSuccess_httpRequests:
  "grepForSuccess e n s = (r, s') \<Longrightarrow> httpRequests s' = httpRequests s"
  by (auto simp: grepForSuccess_def ContainerLogs_call_def Fatal_def split: sum.splits if_splits)

lemma cephNanoHealth_loop_httpRequests:
  "cephNanoHealth_loop e n timeout poll s = (r, s') \<Longrightarrow> httpRequests s' = httpRequests s"
proof (induction e n timeout poll s rule: cephNanoHealth_loop.induct)
  case (1 e n timeout poll s)
  show ?case
  proof (cases "poll < timeout")
    case False
    then have "s' = s" using "1.prems" by (subst (asm) cephNanoHealth_loop.simps) simp
    then show ?thesis by simp
  next
    case True
    obtain g s1 where g: "grepForSuccess e n s = (g, s1)" by (cases "grepForSuccess e n s")
    then have s1: "httpRequests s1 = httpRequests s" by (rule grepForSuccess_httpRequests)
    show ?thesis
    proof (cases "g = Return False")
      case no: False
      then have "s' = s1" using True g "1.prems"
        by (subst (asm) cephNanoHealth_loop.simps) (auto split: outcome.splits if_splits)
      then show ?thesis using s1 by simp
    next
      case yes: True
      then have next_turn: "cephNanoHealth_loop e n timeout (Suc poll) (Sleep 1 s1) = (r, s')"
        using True g "1.prems" by (subst (asm) cephNanoHealth_loop.simps) simp
      have "httpRequests s' = httpRequests (Sleep 1 s1)"
      proof (rule "1.IH")
        show "poll < timeout" by fact
        show "(Return False, s1) = grepForSuccess e n s" using g yes by simp
        show "Return False = Return False" by (rule refl)
        show "\<not> False" by simp
        show "cephNanoHealth_loop e n timeout (Suc poll) (Sleep 1 s1) = (r, s')" by fact
      qed
      then show ?thesis using s1 by (simp add: Sleep_def)
    qed
  qed
qed

lemma cephNanoHealth_httpRequests:
  assumes "cephNanoHealth e n s = (r, s')"
  shows "httpRequests s' = httpRequests s"
proof -
  obtain l s1 where l: "cephNanoHealth_loop e n 60 0 s = (l, s1)"
    by (cases "cephNanoHealth_loop e n 60 0 s")
  then have "httpRequests s1 = httpRequests s" by (rule cephNanoHealth_loop_httpRequests)
  then show ?thesis using assms l
    by (auto simp: cephNanoHealth_def andThen_def lift_def ContainerLogs_call_def Fatal_def
          Println_def split: outcome.splits if_splits sum.splits)
qed

lemma echoInfo_phases:
  assumes "echoInfo e n s = (r, s')" and "httpRequests s' \<noteq> httpRequests s"
  shows "\<exists>RgwPort s1. dockerInspect e n ''PortBindings'' s = (Return RgwPort, s)
            \<and> cephNanoHealth e n s = (Return (), s1)"
proof -
  obtain d s0 where d: "dockerInspect e n ''PortBindings'' s = (d, s0)"
    by (cases "dockerInspect e n ''PortBindings'' s")
  then have s0: "httpRequests s0 = httpRequests s" by (rule dockerInspect_httpRequests)
  show ?thesis
  proof (cases d)
    case (Return RgwPort)
    then have same: "s0 = s" using d dockerInspect_state by blast
    obtain h s1 where h: "cephNanoHealth e n s = (h, s1)" by (cases "cephNanoHealth e n s")
    then have s1: "httpRequests s1 = httpRequests s" by (rule cephNanoHealth_httpRequests)
    show ?thesis
    proof (cases h)
      case inner: (Return u)
      then show ?thesis using d Return same h by simp
    next
      case (Exit c)
      then have "s' = s1" using assms(1) d Return same h
        by (simp add: echoInfo_def andThen_def)
      then show ?thesis using s1 assms(2) by simp
    next
      case Panic
      then have "s' = s1" using assms(1) d Return same h
        by (simp add: echoInfo_def andThen_def)
      then show ?thesis using s1 assms(2) by simp
    qed
  next
    case (Exit c)
    then have "s' = s0" using assms(1) d by (simp add: echoInfo_def andThen_def)
    then show ?thesis using s0 assms(2) by simp
  next
    case Panic
    then have "s' = s0" using assms(1) d by (simp add: echoInfo_def andThen_def)
    then show ?thesis using s0 assms(2) by simp
  qed
qed

lemma cephNanoS3Health_requests:
  assumes "cephNanoS3Health e n RgwPort s = (r, s')"
  shows "\<exists>k ip0. k \<le> 30 \<and> httpRequests s' = httpRequests s @ replicate k (gatewayURL e ip0 RgwPort)"
proof (cases "obind (getInterfaceIPv4s e) (\<lambda>r. index0 (dropError r))")
  case (Return ip0)
  then obtain v where v: "getInterfaceIPv4s e = Return v" "index0 (dropError v) = Return ip0"
    by (auto simp: obind_def split: outcome.splits)
  obtain l s1 where l: "cephNanoS3Health_loop e (gatewayURL e ip0 RgwPort) 30 0 s = (l, s1)"
    by (cases "cephNanoS3Health_loop e (gatewayURL e ip0 RgwPort) 30 0 s")
  then obtain k where k: "k \<le> 30"
    "httpRequests s1 = httpRequests s @ replicate k (gatewayURL e ip0 RgwPort)"
    using cephNanoS3Health_loop_requests by fastforce
  have "httpRequests s' = httpRequests s1"
    using assms v l
    by (auto simp: cephNanoS3Health_def andThen_def lift_def gatewayURL_def showS3Logs_def
          Fatal_def Println_def split: outcome.splits if_splits)
  then show ?thesis using k by auto
next
  case (Exit c)
  then have "s' = s" using assms
    by (auto simp: cephNanoS3Health_def andThen_def lift_def obind_def split: outcome.splits)
  then have "httpRequests s' = httpRequests s @ replicate 0 (gatewayURL e [] RgwPort)" by simp
  then show ?thesis by blast
next
  case Panic
  then have "s' = s" using assms
    by (auto simp: cephNanoS3Health_def andThen_def lift_def obind_def split: outcome.splits)
  then have "httpRequests s' = httpRequests s @ replicate 0 (gatewayURL e [] RgwPort)" by simp
  then show ?thesis by blast
qed

text \<open>
  C3.  In \<open>echoInfo\<close> a request to the gateway is made only after \<open>cephNanoHealth\<close>
  has returned.  \<open>cephNanoS3Health\<close> makes at most 30 requests, all of them to
  \<open>http://address:port\<close>.  When the host has an IPv4 address, it returns at the first
  request that is answered with a response whose body can be read to its end, having
  made no further request; when none of the 30 requests is answered so, it prints the
  notice and the log of the gateway, writes the fixed message to standard error and
  exits with status 1.
\<close>

theorem external_health_polling:
  "(echoInfo e n s = (r, s') \<and> httpRequests s' \<noteq> httpRequests s \<longrightarrow>
      (\<exists>RgwPort s1. dockerInspect e n ''PortBindings'' s = (Return RgwPort, s)
            \<and> cephNanoHealth e n s = (Return (), s1)))
   \<and> (cephNanoS3Health e n port s = (r, s') \<longrightarrow>
      (\<exists>k ip. k \<le> 30
            \<and> httpRequests s' = httpRequests s @ replicate k (gatewayURL e ip port)))
   \<and> (getInterfaceIPv4s e = Return (Inr (ip0 # ips)) \<and> j < 30
        \<and> (\<forall>i<j. \<not> delivered e (length (httpRequests s) + i) (gatewayURL e ip0 port))
        \<and> delivered e (length (httpRequests s) + j) (gatewayURL e ip0 port) \<longrightarrow>
      cephNanoS3Health e n port s
        = (Return (),
           s\<lparr>httpRequests := httpRequests s @ replicate (Suc j) (gatewayURL e ip0 port),
             slept := slept s + j\<rparr>))
   \<and> (getInterfaceIPv4s e = Return (Inr (ip0 # ips))
        \<and> (\<forall>i<30. \<not> delivered e (length (httpRequests s) + i) (gatewayURL e ip0 port)) \<longrightarrow>
      cephNanoS3Health e n port s
        = (Exit 1,
           s\<lparr>httpRequests := httpRequests s @ replicate 30 (gatewayURL e ip0 port),
             slept := slept s + 30,
             stdout := stdout s @ [''S3 gateway for cluster '' @ n
                         @ '' is not responding. Showing S3 logs:'', S3Logs e n],
             stderr := stderr s @ [''Please open an issue at: https://github.com/ceph/cn.'']\<rparr>))"
proof (intro conjI impI)
  assume "echoInfo e n s = (r, s') \<and> httpRequests s' \<noteq> httpRequests s"
  then show "\<exists>RgwPort s1. dockerInspect e n ''PortBindings'' s = (Return RgwPort, s)
            \<and> cephNanoHealth e n s = (Return (), s1)"
    using echoInfo_phases by blast
next
  assume "cephNanoS3Health e n port s = (r, s')"
  then show "\<exists>k ip. k \<le> 30
            \<and> httpRequests s' = httpRequests s @ replicate k (gatewayURL e ip port)"
    by (rule cephNanoS3Health_requests)
next
  assume h: "getInterfaceIPv4s e = Return (Inr (ip0 # ips)) \<and> j < 30
        \<and> (\<forall>i<j. \<not> delivered e (length (httpRequests s) + i) (gatewayURL e ip0 port))
        \<and> delivered e (length (httpRequests s) + j) (gatewayURL e ip0 port)"
  have "cephNanoS3Health_loop e (gatewayURL e ip0 port) 30 0 s
      = (Return True,
         s\<lparr>httpRequests := httpRequests s @ replicate (Suc j) (gatewayURL e ip0 port),
           slept := slept s + j\<rparr>)"
    using h by (intro cephNanoS3Health_loop_delivered) auto
  then show "cephNanoS3Health e n port s
        = (Return (),
           s\<lparr>httpRequests := httpRequests s @ replicate (Suc j) (gatewayURL e ip0 port),
             slept := slept s + j\<rparr>)"
    using h
    by (simp add: cephNanoS3Health_def andThen_def lift_def dropError_def index0_def
          gatewayURL_def)
next
  assume h: "getInterfaceIPv4s e = Return (Inr (ip0 # ips))
        \<and> (\<forall>i<30. \<not> delivered e (length (httpRequests s) + i) (gatewayURL e ip0 port))"
  have "cephNanoS3Health_loop e (gatewayURL e ip0 port) 30 0 s
      = (Return False,
         s\<lparr>httpRequests := httpRequests s @ replicate 30 (gatewayURL e ip0 port),
           slept := slept s + 30\<rparr>)"
    using h by (intro cephNanoS3Health_loop_exhausted) auto
  then show "cephNanoS3Health e n port s
        = (Exit 1,
           s\<lparr>httpRequests := httpRequests s @ replicate 30 (gatewayURL e ip0 port),
             slept := slept s + 30,
             stdout := stdout s @ [''S3 gateway for cluster '' @ n
                         @ '' is not responding. Showing S3 logs:'', S3Logs e n],
             stderr := stderr s @ [''Please open an issue at: https://github.com/ceph/cn.'']\<rparr>)"
    using h
    by (simp add: cephNanoS3Health_def andThen_def lift_def dropError_def index0_def
          gatewayURL_def showS3Logs_def Println_def Fatal_def)
qed

lemma gatewayHost_addresses:
  "getInterfaceIPv4s (gatewayHost answers)
     = Return (Inr [[192, 168, 0, 200], [10, 0, 0, 50],
                    [0, 0, 0, 0, 0, 0, 0, 0, 0, 0, 0xff, 0xff, 127, 0, 0, 1]])"
  by (simp add: gatewayHost_def getInterfaceIPv4s_def hostAddrs_def hostParseCIDR_def To4_def
        Sort_def obind_def Reverse_def Less_def lastOctet_def)

lemma gatewayHost_port:
  "dockerInspect (gatewayHost answers) ''ceph-nano-a'' ''PortBindings'' s = (Return ''8000'', s)"
  by (simp add: gatewayHost_def dockerInspect_def obind_def index0_def index1_def)

lemma gatewayHost_healthy:
  "cephNanoHealth (gatewayHost answers) ''ceph-nano-a'' state0
     = (Return (), state0\<lparr>logRequests := 1\<rparr>)"
proof -
  have "cephNanoHealth_loop (gatewayHost answers) ''ceph-nano-a'' 60 0 state0
          = (Return True, state0\<lparr>logRequests := logRequests state0 + 0 + 1,
                                slept := slept state0 + 0\<rparr>)"
    by (rule cephNanoHealth_loop_found[where c = "''demo: SUCCESS''"])
       (simp_all add: gatewayHost_def)
  then show ?thesis
    by (simp add: cephNanoHealth_def andThen_def lift_def state0_def)
qed

lemma gatewayHost_fields:
  "http_Get (gatewayHost answers) = answers"
  "S3Logs (gatewayHost answers) = (\<lambda>name. [])"
  "IP_String (gatewayHost answers) = (\<lambda>ip. ''192.168.0.200'')"
  by (simp_all add: gatewayHost_def env0_def)

theorem external_health_polling_witness:
  "cephNanoS3Health (gatewayHost afterThree) ''ceph-nano-a'' ''8000'' state0
     = (Return (),
        state0\<lparr>httpRequests := replicate 4 ''http://192.168.0.200:8000'', slept := 3\<rparr>)
   \<and> cephNanoS3Health (gatewayHost refused) ''ceph-nano-a'' ''8000'' state0
     = (Exit 1,
        state0\<lparr>httpRequests := replicate 30 ''http://192.168.0.200:8000'', slept := 30,
          stdout := [''S3 gateway for cluster ceph-nano-a is not responding. Showing S3 logs:'',
                     []],
          stderr := [''Please open an issue at: https://github.com/ceph/cn.'']\<rparr>)
   \<and> (\<exists>RgwPort s1.
         dockerInspect (gatewayHost refused) ''ceph-nano-a'' ''PortBindings'' state0
           = (Return RgwPort, state0)
         \<and> cephNanoHealth (gatewayHost refused) ''ceph-nano-a'' state0 = (Return (), s1))"
proof -
  let ?ip = "[192, 168, 0, 200] :: IP"
  let ?ips = "[[10, 0, 0, 50], [0, 0, 0, 0, 0, 0, 0, 0, 0, 0, 0xff, 0xff, 127, 0, 0, 1]] :: IP list"
  let ?n = "''ceph-nano-a''"
  let ?url = "''http://192.168.0.200:8000''"
  have url: "gatewayURL (gatewayHost answers) ?ip ''8000'' = ?url" for answers
    by (simp add: gatewayURL_def gatewayHost_fields)
  have empty: "httpRequests state0 = []" "slept state0 = 0" "stdout state0 = []"
    "stderr state0 = []"
    by (simp_all add: state0_def)
  have misses: "\<forall>i<3. \<not> delivered (gatewayHost afterThree) (length (httpRequests state0) + i) ?url"
    by (simp add: delivered_def gatewayHost_fields afterThree_def empty)
  have hit: "delivered (gatewayHost afterThree) (length (httpRequests state0) + 3) ?url"
    by (simp add: delivered_def gatewayHost_fields afterThree_def empty)
  have up: "cephNanoS3Health (gatewayHost afterThree) ?n ''8000'' state0
     = (Return (), state0\<lparr>httpRequests := replicate 4 ?url, slept := 3\<rparr>)"
    using external_health_polling
            [of "gatewayHost afterThree" ?n state0 "Return ()" state0 "''8000''" ?ip ?ips 3]
      gatewayHost_addresses [of afterThree] misses hit
    by (simp add: url empty)
  let ?s1 = "state0\<lparr>logRequests := 1\<rparr>"
  have down: "cephNanoS3Health (gatewayHost refused) ?n ''8000'' s
     = (Exit 1,
        s\<lparr>httpRequests := replicate 30 ?url, slept := 30,
          stdout := [''S3 gateway for cluster ceph-nano-a is not responding. Showing S3 logs:'',
                     []],
          stderr := [''Please open an issue at: https://github.com/ceph/cn.'']\<rparr>)"
    if s: "httpRequests s = []" "slept s = 0" "stdout s = []" "stderr s = []" for s
  proof -
    have "\<forall>i<30. \<not> delivered (gatewayHost refused) (length (httpRequests s) + i) ?url"
      by (simp add: delivered_def gatewayHost_fields refused_def)
    then show ?thesis
      using external_health_polling
              [of "gatewayHost refused" ?n s "Return ()" s "''8000''" ?ip ?ips 0]
        gatewayHost_addresses [of refused]
      by (simp add: url s gatewayHost_fields)
  qed
  let ?s2 = "?s1\<lparr>httpRequests := replicate 30 ?url, slept := 30,
          stdout := [''S3 gateway for cluster ceph-nano-a is not responding. Showing S3 logs:'',
                     []],
          stderr := [''Please open an issue at: https://github.com/ceph/cn.'']\<rparr>"
  have "cephNanoS3Health (gatewayHost refused) ?n ''8000'' ?s1 = (Exit 1, ?s2)"
    by (rule down) (simp_all add: empty)
  then have "echoInfo (gatewayHost refused) ?n state0 = (Exit 1, ?s2)"
    using gatewayHost_port [of refused state0] gatewayHost_healthy [of refused]
    by (simp add: echoInfo_def andThen_def)
  moreover have "httpRequests ?s2 \<noteq> httpRequests state0"
    by (simp add: empty)
  ultimately have phases: "\<exists>RgwPort s1.
         dockerInspect (gatewayHost refused) ?n ''PortBindings'' state0 = (Return RgwPort, state0)
         \<and> cephNanoHealth (gatewayHost refused) ?n state0 = (Return (), s1)"
    using external_health_polling
            [of "gatewayHost refused" ?n state0 "Exit 1" ?s2 "''8000''" ?ip ?ips 0]
    by blast
  from up down [OF empty] phases show ?thesis by simp
qed

subsection \<open>Purge\<close>

text \<open>No command reads the errors of the two removal calls.\<close>

lemma ContainerList_ignores_removal_errors:
  "ContainerList (e\<lparr>ContainerRemove_error := f, ImageRemove_error := g\<rparr>) options
     = ContainerList e options"
  by (simp add: ContainerList_def split: option.splits)

lemma containerStatus_ignores_removal_errors:
  "containerStatus (e\<lparr>ContainerRemove_error := f, ImageRemove_error := g\<rparr>) n allList st
     = containerStatus e n allList st"
  by (rule ext) (simp add: containerStatus_def ContainerList_ignores_removal_errors)

lemma dockerInspect_ignores_removal_errors:
  "dockerInspect (e\<lparr>ContainerRemove_error := f, ImageRemove_error := g\<rparr>) n pattern
     = dockerInspect e n pattern"
  by (rule ext) (simp add: dockerInspect_def)

lemma ContainerRemove_error_dropped:
  "andThen (ContainerRemove_call (e\<lparr>ContainerRemove_error := f, ImageRemove_error := g\<rparr>)
              n options) (\<lambda>_. k)
     = andThen (ContainerRemove_call e n options) (\<lambda>_. k)"
  by (rule ext) (simp add: andThen_def ContainerRemove_call_def)

lemma ImageRemove_error_dropped:
  "andThen (ImageRemove_call (e\<lparr>ContainerRemove_error := f, ImageRemove_error := g\<rparr>)
              n options) (\<lambda>_. k)
     = andThen (ImageRemove_call e n options) (\<lambda>_. k)"
  by (rule ext) (simp add: andThen_def ImageRemove_call_def)

lemma notExistCheck_ignores_removal_errors:
  "notExistCheck (e\<lparr>ContainerRemove_error := f, ImageRemove_error := g\<rparr>) n
     = notExistCheck e n"
  by (simp add: notExistCheck_def ContainerNameToShow_def containerStatus_ignores_removal_errors
      cong: if_cong)

lemma removeContainer_ignores_removal_errors:
  "removeContainer (e\<lparr>ContainerRemove_error := f, ImageRemove_error := g\<rparr>) n
     = removeContainer e n"
  by (simp add: removeContainer_def dockerInspect_ignores_removal_errors
        ContainerRemove_error_dropped ImageRemove_error_dropped
      cong: if_cong)

text \<open>
  C7.  Without the confirmation flag \<open>purgeNano\<close> prints the guidance and the help
  and exits with status 1, having made no removal call.  With the confirmation flag and
  the delete-all flag, when the existence check lets the command go on and the
  container can be inspected, it removes the container and then the image named by the
  inspection, and returns.  Whatever errors the two removal calls return, the outcome
  and the state of the command are the same.
\<close>

theorem purgeNano_confirmation:
  "(\<not> IamSure s \<longrightarrow>
      purgeNano e [a] s
        = (Exit 1,
           s\<lparr>stdout := stdout s
                  @ [''Purge option is too dangerous please set the right flag. \<newline> \<newline>''],
             helpShown := Suc (helpShown s)\<rparr>))
   \<and> (IamSure s \<and> DeleteAll s
        \<and> notExistCheck e (resolveContainerName e a) s = (Return (), s)
        \<and> ContainerInspect e (resolveContainerName e a) = Inr inspect \<longrightarrow>
      purgeNano e [a] s
        = (Return (),
           s\<lparr>ImageName := Config_Image inspect,
             stdout := stdout s
                  @ [''Purging cluster '' @ a @ ''...'',
                     ''Removing container image'' @ Config_Image inspect @ ''...''],
             engineCalls := engineCalls s
                  @ [ContainerRemove (resolveContainerName e a)
                       \<lparr>RemoveLinks = False, RemoveVolumes = True, Force = True\<rparr>,
                     ImageRemove (Config_Image inspect)
                       \<lparr>ForceImage = True, PruneChildren = True\<rparr>]\<rparr>))
   \<and> purgeNano (e\<lparr>ContainerRemove_error := f, ImageRemove_error := g\<rparr>) args s
       = purgeNano e args s"
proof (intro conjI impI)
  assume "\<not> IamSure s"
  then show "purgeNano e [a] s
        = (Exit 1,
           s\<lparr>stdout := stdout s
                  @ [''Purge option is too dangerous please set the right flag. \<newline> \<newline>''],
             helpShown := Suc (helpShown s)\<rparr>)"
    by (simp add: purgeNano_def andThen_def lift_def index0_def ContainerNameToShow_def
          resolveContainerName_def sliceFrom_def Println_def)
next
  assume h: "IamSure s \<and> DeleteAll s
        \<and> notExistCheck e (resolveContainerName e a) s = (Return (), s)
        \<and> ContainerInspect e (resolveContainerName e a) = Inr inspect"
  then have "removeContainer e (resolveContainerName e a)
               (Println (''Purging cluster '' @ a @ ''...'') s)
        = (Return (),
           s\<lparr>ImageName := Config_Image inspect,
             stdout := stdout s
                  @ [''Purging cluster '' @ a @ ''...'',
                     ''Removing container image'' @ Config_Image inspect @ ''...''],
             engineCalls := engineCalls s
                  @ [ContainerRemove (resolveContainerName e a)
                       \<lparr>RemoveLinks = False, RemoveVolumes = True, Force = True\<rparr>,
                     ImageRemove (Config_Image inspect)
                       \<lparr>ForceImage = True, PruneChildren = True\<rparr>]\<rparr>)"
    by (simp add: removeContainer_def andThen_def lift_def dockerInspect_def
          ContainerRemove_call_def ImageRemove_call_def Println_def)
  then show "purgeNano e [a] s
        = (Return (),
           s\<lparr>ImageName := Config_Image inspect,
             stdout := stdout s
                  @ [''Purging cluster '' @ a @ ''...'',
                     ''Removing container image'' @ Config_Image inspect @ ''...''],
             engineCalls := engineCalls s
                  @ [ContainerRemove (resolveContainerName e a)
                       \<lparr>RemoveLinks = False, RemoveVolumes = True, Force = True\<rparr>,
                     ImageRemove (Config_Image inspect)
                       \<lparr>ForceImage = True, PruneChildren = True\<rparr>]\<rparr>)"
    using h
    by (simp add: purgeNano_def andThen_def lift_def index0_def ContainerNameToShow_def
          sliceFrom_def resolveContainerName_def)
next
  show "purgeNano (e\<lparr>ContainerRemove_error := f, ImageRemove_error := g\<rparr>) args s
       = purgeNano e args s"
    by (simp add: purgeNano_def ContainerNameToShow_def resolveContainerName_def
          notExistCheck_ignores_removal_errors removeContainer_ignores_removal_errors
        cong: if_cong)
qed

theorem purgeNano_confirmation_witness:
  "purgeNano purgeHost [''a''] state0
     = (Exit 1,
        state0\<lparr>stdout := [''Purge option is too dangerous please set the right flag. \<newline> \<newline>''],
               helpShown := 1\<rparr>)
   \<and> purgeNano purgeHost [''a''] (state0\<lparr>IamSure := True, DeleteAll := True\<rparr>)
     = (Return (),
        state0\<lparr>IamSure := True, DeleteAll := True, ImageName := ''img:v1'',
          stdout := [''Purging cluster a...'', ''Removing container imageimg:v1...''],
          engineCalls :=
            [ContainerRemove ''ceph-nano-a''
               \<lparr>RemoveLinks = False, RemoveVolumes = True, Force = True\<rparr>,
             ImageRemove ''img:v1'' \<lparr>ForceImage = True, PruneChildren = True\<rparr>]\<rparr>)"
proof -
  let ?sure = "state0\<lparr>IamSure := True, DeleteAll := True\<rparr>"
  let ?inspect = "\<lparr>HostConfig_Binds = [''/usr/share/ceph-nano:/tmp''],
              Config_Env = [''RGW_CIVETWEB_PORT=8000''],
              Config_Image = ''img:v1''\<rparr>"
  have name: "resolveContainerName purgeHost ''a'' = ''ceph-nano-a''"
    by (simp add: resolveContainerName_def purgeHost_def env0_def)
  have unsure: "\<not> IamSure state0" by (simp add: state0_def)
  have refuse: "purgeNano purgeHost [''a''] state0
     = (Exit 1,
        state0\<lparr>stdout := [''Purge option is too dangerous please set the right flag. \<newline> \<newline>''],
               helpShown := 1\<rparr>)"
    using purgeNano_confirmation [of state0 purgeHost "''a''" ?inspect] unsure
    by (simp add: state0_def)
  have there: "notExistCheck purgeHost ''ceph-nano-a'' ?sure = (Return (), ?sure)"
    by (simp add: notExistCheck_def andThen_def lift_def ContainerNameToShow_def sliceFrom_def
          containerStatus_def ContainerList_def shownByDefault_def purgeHost_def env0_def)
  have inspect: "ContainerInspect purgeHost ''ceph-nano-a'' = Inr ?inspect"
    by (simp add: purgeHost_def)
  have purge: "purgeNano purgeHost [''a''] ?sure
     = (Return (),
        state0\<lparr>IamSure := True, DeleteAll := True, ImageName := ''img:v1'',
          stdout := [''Purging cluster a...'', ''Removing container imageimg:v1...''],
          engineCalls :=
            [ContainerRemove ''ceph-nano-a''
               \<lparr>RemoveLinks = False, RemoveVolumes = True, Force = True\<rparr>,
             ImageRemove ''img:v1'' \<lparr>ForceImage = True, PruneChildren = True\<rparr>]\<rparr>)"
    using purgeNano_confirmation [of ?sure purgeHost "''a''" ?inspect] there inspect
    by (simp add: name state0_def)
  from refuse purge show ?thesis by simp
qed

end
